theory Spec2Isabelle
  imports Complex_Main "HOL-Library.Word"
begin

unbundle bit_operations_syntax

section \<open>The Si7013/20/21 driver (drivers/iio/humidity/si7020.c)\<close>

subsection \<open>Constants of the driver\<close>

type_synonym byte = "8 word"

definition SI7020CMD_RH_HOLD :: byte where "SI7020CMD_RH_HOLD = 0xE5"
definition SI7020CMD_RH_NO_HOLD :: byte where "SI7020CMD_RH_NO_HOLD = 0xF5"
definition SI7020CMD_TEMP_HOLD :: byte where "SI7020CMD_TEMP_HOLD = 0xE3"
definition SI7020CMD_TEMP_NO_HOLD :: byte where "SI7020CMD_TEMP_NO_HOLD = 0xF3"
definition SI7020CMD_RESET :: byte where "SI7020CMD_RESET = 0xFE"
definition SI7020_RH_TIMEOUT :: nat where "SI7020_RH_TIMEOUT = 22800"
definition SI7020_TEMP_TIMEOUT :: nat where "SI7020_TEMP_TIMEOUT = 10800"
definition SI7020_NOHOLD_SLEEP_MIN :: nat where "SI7020_NOHOLD_SLEEP_MIN = 2000"
definition SI7020_NOHOLD_SLEEP_MAX :: nat where "SI7020_NOHOLD_SLEEP_MAX = 6000"

subsection \<open>Kernel types the driver uses\<close>

text \<open>
  The driver registers exactly the two channels of \<open>si7020_channels\<close>, so
  \<open>chan->type\<close> is one of these two values of \<open>enum iio_chan_type\<close>.
\<close>

datatype iio_chan_type = IIO_HUMIDITYRELATIVE | IIO_TEMP

text \<open>
  The \<open>mask\<close> argument of \<open>read_raw\<close>: a value of \<open>enum iio_chan_info_enum\<close>.
  The driver's \<open>switch\<close> names three of them; the others reach \<open>default\<close>.
\<close>

datatype iio_chan_info_enum =
    IIO_CHAN_INFO_RAW
  | IIO_CHAN_INFO_PROCESSED
  | IIO_CHAN_INFO_SCALE
  | IIO_CHAN_INFO_OFFSET
  | IIO_CHAN_INFO_CALIBSCALE
  | IIO_CHAN_INFO_CALIBBIAS
  | IIO_CHAN_INFO_PEAK
  | IIO_CHAN_INFO_PEAK_SCALE
  | IIO_CHAN_INFO_AVERAGE_RAW
  | IIO_CHAN_INFO_SAMP_FREQ
  | IIO_CHAN_INFO_HYSTERESIS
  | IIO_CHAN_INFO_INT_TIME

text \<open>
  What \<open>read_raw\<close> hands back on success: the return code \<open>IIO_VAL_INT\<close> with
  \<open>*val\<close>, or \<open>IIO_VAL_FRACTIONAL\<close> with \<open>*val\<close> over \<open>*val2\<close>. A failure is the
  negative errno the C function returns, kept as the integer it is.
\<close>

datatype iio_val = IIO_VAL_INT int | IIO_VAL_FRACTIONAL int int

text \<open>The errno values the driver returns (include/uapi/asm-generic/errno-base.h).\<close>

definition EINVAL :: int where "EINVAL = 22"
definition ENODEV :: int where "ENODEV = 19"
definition ENOMEM :: int where "ENOMEM = 12"

text \<open>
  Modelled from the spec: the adapter's capability words and the tests
  \<open>i2c_check_functionality\<close>, \<open>i2c_check_quirks\<close> (include/linux/i2c.h) and
  \<open>dev_get_platdata\<close> (include/linux/device.h) are kernel code outside the driver.
  The spec: the
  transport exposes "a capability query for clock-stretch support and for raw
  read/write primitives", and the platform configuration is "a single boolean,
  prefer blocking I/O", optional. A capability word is the set of its flags; a test
  asks whether all the flags named are in it.
\<close>

datatype i2c_func =
  I2C_FUNC_I2C | I2C_FUNC_SMBUS_WRITE_BYTE | I2C_FUNC_SMBUS_READ_WORD_DATA

datatype i2c_quirk = I2C_AQ_NO_CLK_STRETCH

record i2c_adapter =
  functionality :: "i2c_func set"
  quirks :: "i2c_quirk set"

record si7020_platform_data =
  blocking_io :: bool

record i2c_client =
  adapter :: i2c_adapter
  platdata :: "si7020_platform_data option"

definition i2c_check_functionality :: "i2c_adapter \<Rightarrow> i2c_func set \<Rightarrow> bool" where
  "i2c_check_functionality adap func \<longleftrightarrow> func \<subseteq> functionality adap"

definition i2c_check_quirks :: "i2c_adapter \<Rightarrow> i2c_quirk set \<Rightarrow> bool" where
  "i2c_check_quirks adap qs \<longleftrightarrow> qs \<subseteq> quirks adap"

definition dev_get_platdata :: "i2c_client \<Rightarrow> si7020_platform_data option" where
  "dev_get_platdata client = platdata client"

subsection \<open>The bus, the clock and the record of what was done\<close>

text \<open>
  Modelled from the spec: the calls the driver makes into the kernel
  (\<open>i2c_smbus_read_word_swapped\<close>, \<open>i2c_smbus_write_byte\<close>, \<open>i2c_master_recv\<close>,
  \<open>usleep_range\<close>, \<open>msleep\<close>, \<open>devm_iio_device_alloc\<close>,
  \<open>devm_iio_device_register\<close>) are kernel code outside the driver. The spec: the
  transport exposes
  "a combined write-byte-then-read-16-bit-big-endian-word primitive", "a
  write-single-byte primitive", "a raw-read-N-bytes primitive" and "a monotonic clock
  and sleep primitive"; a call returns a negative errno when it fails.

  Every call that leaves the driver is one \<open>bus_op\<close>. The world answers the
  \<open>n\<close>-th call with a \<open>reply\<close>: the return code, the two bytes a receive leaves
  in \<open>buf\<close>, and the time the call took in microseconds. The world keeps the
  monotonic time and the list of calls made so far.
\<close>

datatype bus_op =
    SMBUS_READ_WORD_SWAPPED byte
  | SMBUS_WRITE_BYTE byte
  | MASTER_RECV nat
  | USLEEP_RANGE nat nat
  | MSLEEP nat
  | DEVM_IIO_DEVICE_ALLOC
  | DEVM_IIO_DEVICE_REGISTER

record reply =
  retval :: int
  buf0 :: byte
  buf1 :: byte
  took_us :: nat

record (overloaded) 'l world =
  respond :: "nat \<Rightarrow> bus_op \<Rightarrow> reply"
  tick_us :: nat
  boot_jiffies :: "'l word"
  now_us :: nat
  oplog :: "bus_op list"

definition perform :: "bus_op \<Rightarrow> 'l world \<Rightarrow> reply \<times> 'l world" where
  "perform op w =
     (let r = respond w (length (oplog w)) op
      in (r, w\<lparr>now_us := now_us w + took_us r, oplog := oplog w @ [op]\<rparr>))"

definition i2c_smbus_read_word_swapped :: "byte \<Rightarrow> 'l world \<Rightarrow> int \<times> 'l world" where
  "i2c_smbus_read_word_swapped command w =
     (case perform (SMBUS_READ_WORD_SWAPPED command) w of (r, w1) \<Rightarrow> (retval r, w1))"

definition i2c_smbus_write_byte :: "byte \<Rightarrow> 'l world \<Rightarrow> int \<times> 'l world" where
  "i2c_smbus_write_byte v w =
     (case perform (SMBUS_WRITE_BYTE v) w of (r, w1) \<Rightarrow> (retval r, w1))"

definition i2c_master_recv :: "nat \<Rightarrow> 'l world \<Rightarrow> int \<times> (byte \<times> byte) \<times> 'l world" where
  "i2c_master_recv count w =
     (case perform (MASTER_RECV count) w of (r, w1) \<Rightarrow> (retval r, (buf0 r, buf1 r), w1))"

definition usleep_range :: "nat \<Rightarrow> nat \<Rightarrow> 'l world \<Rightarrow> 'l world" where
  "usleep_range lo hi w = snd (perform (USLEEP_RANGE lo hi) w)"

definition msleep :: "nat \<Rightarrow> 'l world \<Rightarrow> 'l world" where
  "msleep ms w = snd (perform (MSLEEP ms) w)"

definition devm_iio_device_alloc :: "'l world \<Rightarrow> bool \<times> 'l world" where
  "devm_iio_device_alloc w =
     (case perform DEVM_IIO_DEVICE_ALLOC w of (r, w1) \<Rightarrow> (retval r \<noteq> 0, w1))"

definition devm_iio_device_register :: "'l world \<Rightarrow> int \<times> 'l world" where
  "devm_iio_device_register w =
     (case perform DEVM_IIO_DEVICE_REGISTER w of (r, w1) \<Rightarrow> (retval r, w1))"

text \<open>
  Modelled from the spec: the kernel's tick counter \<open>jiffies\<close>, \<open>usecs_to_jiffies\<close>
  and \<open>time_after\<close> (include/linux/jiffies.h, kernel/time/time.c) are kernel code
  outside the driver. The spec asks of the transport "a monotonic clock" and measures
  the timeout
  "from just after the write". The clock is the kernel's: an \<open>unsigned long\<close> of
  \<open>LENGTH('l)\<close> bits that starts at \<open>boot_jiffies\<close> and advances once every
  \<open>tick_us\<close> microseconds (\<open>USEC_PER_SEC / HZ\<close>); \<open>usecs_to_jiffies\<close> rounds up to
  whole ticks; \<open>time_after a b\<close> is \<open>(long)(b - a) < 0\<close>.
\<close>

definition jiffies :: "'l::len world \<Rightarrow> 'l word" where
  "jiffies w = boot_jiffies w + of_nat (now_us w div tick_us w)"

definition usecs_to_jiffies :: "'l::len world \<Rightarrow> nat \<Rightarrow> 'l word" where
  "usecs_to_jiffies w u = of_nat ((u + tick_us w - 1) div tick_us w)"

definition time_after :: "'l::len word \<Rightarrow> 'l word \<Rightarrow> bool" where
  "time_after a b \<longleftrightarrow> sint (b - a) < 0"

text \<open>
  Modelled from the spec: the macro \<open>clamp_val\<close> (include/linux/kernel.h) is kernel
  code outside the driver. The spec: "clamp the raw 14-bit value to [786, 13893]".
\<close>

definition clamp_val :: "int \<Rightarrow> int \<Rightarrow> int \<Rightarrow> int" where
  "clamp_val v lo hi = min (max v lo) hi"

subsection \<open>\<open>si7020_read_raw\<close>\<close>

text \<open>Lines 72 to 77: the mode of a raw read.\<close>

definition holdmode :: "i2c_client \<Rightarrow> bool" where
  "holdmode client =
     (case dev_get_platdata client of
        Some pdata \<Rightarrow> blocking_io pdata
      | None \<Rightarrow> \<not> i2c_check_quirks (adapter client) {I2C_AQ_NO_CLK_STRETCH})"

text \<open>Lines 79 to 85: the hold-mode branch. \<open>Inr\<close> carries what is stored in \<open>*val\<close>.\<close>

definition si7020_read_hold :: "iio_chan_type \<Rightarrow> 'l world \<Rightarrow> (int + int) \<times> 'l world" where
  "si7020_read_hold chan w =
     (case i2c_smbus_read_word_swapped
             (if chan = IIO_TEMP then SI7020CMD_TEMP_HOLD else SI7020CMD_RH_HOLD) w of
        (ret, w1) \<Rightarrow>
          if ret < 0 then (Inl ret, w1)
          else (Inr (drop_bit 2 ret), w1))"

text \<open>
  Lines 94 to 104: the polling loop. The C loop ends only when a receive succeeds or
  the clock passes the deadline, so the model is a partial function: \<open>None\<close> is a
  loop that never ends.
\<close>

partial_function (option) si7020_poll ::
  "iio_chan_type \<Rightarrow> 'l::len word \<Rightarrow> 'l world \<Rightarrow> ((int + int) \<times> 'l world) option" where
  "si7020_poll chan start w =
     (case i2c_master_recv 2 w of
        (ret, buf, w1) \<Rightarrow>
          if ret < 0 then
            if time_after (jiffies w1)
                 (start + usecs_to_jiffies w1
                    (if chan = IIO_TEMP then SI7020_TEMP_TIMEOUT else SI7020_RH_TIMEOUT))
            then Some (Inl ret, w1)
            else si7020_poll chan start
                   (usleep_range SI7020_NOHOLD_SLEEP_MIN SI7020_NOHOLD_SLEEP_MAX w1)
          else Some (Inr (drop_bit 2 (push_bit 8 (uint (fst buf)) OR uint (snd buf))), w1))"

text \<open>Lines 87 to 104: the no-hold branch.\<close>

definition si7020_read_nohold ::
  "iio_chan_type \<Rightarrow> 'l::len world \<Rightarrow> ((int + int) \<times> 'l world) option" where
  "si7020_read_nohold chan w =
     (case i2c_smbus_write_byte
             (if chan = IIO_TEMP then SI7020CMD_TEMP_NO_HOLD else SI7020CMD_RH_NO_HOLD) w of
        (ret, w1) \<Rightarrow>
          if ret < 0 then Some (Inl ret, w1)
          else si7020_poll chan (jiffies w1) w1)"

text \<open>Lines 72 to 105: the measurement, before the clamp.\<close>

definition si7020_measure ::
  "i2c_client \<Rightarrow> iio_chan_type \<Rightarrow> 'l::len world \<Rightarrow> ((int + int) \<times> 'l world) option" where
  "si7020_measure client chan w =
     (if holdmode client then Some (si7020_read_hold chan w)
      else si7020_read_nohold chan w)"

definition si7020_read_raw ::
  "i2c_client \<Rightarrow> iio_chan_type \<Rightarrow> iio_chan_info_enum \<Rightarrow> 'l::len world \<Rightarrow>
     ((int + iio_val) \<times> 'l world) option" where
  "si7020_read_raw client chan msk w =
     (case msk of
        IIO_CHAN_INFO_RAW \<Rightarrow>
          (case si7020_measure client chan w of
             None \<Rightarrow> None
           | Some (Inl ret, w1) \<Rightarrow> Some (Inl ret, w1)
           | Some (Inr val, w1) \<Rightarrow>
               Some (Inr (IIO_VAL_INT
                            (if chan = IIO_HUMIDITYRELATIVE then clamp_val val 786 13893
                             else val)), w1))
      | IIO_CHAN_INFO_SCALE \<Rightarrow>
          Some (Inr (IIO_VAL_FRACTIONAL
                       (if chan = IIO_TEMP then 175720 else 125 * 1000)
                       (drop_bit 2 65536)), w)
      | IIO_CHAN_INFO_OFFSET \<Rightarrow>
          Some (Inr (IIO_VAL_INT (if chan = IIO_TEMP then - 4368 else - 786)), w)
      | _ \<Rightarrow> Some (Inl (- EINVAL), w))"

subsection \<open>\<open>si7020_probe\<close>\<close>

definition si7020_probe :: "i2c_client \<Rightarrow> 'l world \<Rightarrow> int \<times> 'l world" where
  "si7020_probe client w =
     (if \<not> i2c_check_functionality (adapter client)
             {I2C_FUNC_SMBUS_WRITE_BYTE, I2C_FUNC_SMBUS_READ_WORD_DATA}
      then (- ENODEV, w)
      else if (case dev_get_platdata client of
                 Some pdata \<Rightarrow>
                   if blocking_io pdata
                   then i2c_check_quirks (adapter client) {I2C_AQ_NO_CLK_STRETCH}
                   else \<not> i2c_check_functionality (adapter client) {I2C_FUNC_I2C}
               | None \<Rightarrow>
                   \<not> i2c_check_functionality (adapter client) {I2C_FUNC_I2C} \<and>
                   i2c_check_quirks (adapter client) {I2C_AQ_NO_CLK_STRETCH})
      then (- ENODEV, w)
      else
        (case i2c_smbus_write_byte SI7020CMD_RESET w of
           (ret, w1) \<Rightarrow>
             if ret < 0 then (ret, w1)
             else
               (case devm_iio_device_alloc (msleep 15 w1) of
                  (indio_dev, w2) \<Rightarrow>
                    if \<not> indio_dev then (- ENOMEM, w2)
                    else devm_iio_device_register w2)))"

subsection \<open>Notions used to state the properties\<close>

text \<open>
  The reply the next two-byte receive will get, the world right after it, and the
  world after one failed attempt: the receive followed by the sleep of lines 101 and 102.
\<close>

definition recv_reply :: "'l world \<Rightarrow> reply" where
  "recv_reply w = respond w (length (oplog w)) (MASTER_RECV 2)"

definition after_recv :: "'l world \<Rightarrow> 'l world" where
  "after_recv w = snd (perform (MASTER_RECV 2) w)"

definition retry :: "'l world \<Rightarrow> 'l world" where
  "retry w = usleep_range SI7020_NOHOLD_SLEEP_MIN SI7020_NOHOLD_SLEEP_MAX (after_recv w)"

text \<open>The value line 104 stores in \<open>*val\<close> from the two bytes of a reply.\<close>

definition assemble :: "reply \<Rightarrow> int" where
  "assemble r = drop_bit 2 (push_bit 8 (uint (buf0 r)) OR uint (buf1 r))"

text \<open>The timeout of a channel, and the test of lines 95 to 99 at a world.\<close>

definition timeout_us :: "iio_chan_type \<Rightarrow> nat" where
  "timeout_us chan = (if chan = IIO_TEMP then SI7020_TEMP_TIMEOUT else SI7020_RH_TIMEOUT)"

definition timeout_jiffies :: "'l world \<Rightarrow> iio_chan_type \<Rightarrow> nat" where
  "timeout_jiffies w chan = (timeout_us chan + tick_us w - 1) div tick_us w"

definition timed_out :: "iio_chan_type \<Rightarrow> 'l::len word \<Rightarrow> 'l world \<Rightarrow> bool" where
  "timed_out chan start w \<longleftrightarrow>
     time_after (jiffies w) (start + usecs_to_jiffies w (timeout_us chan))"

text \<open>
  Attempt \<open>k\<close> (counted from 0) is the first that decides the loop: every earlier
  receive failed before the deadline, and receive \<open>k\<close> succeeds or fails after it.
\<close>

definition decisive_at :: "iio_chan_type \<Rightarrow> 'l::len word \<Rightarrow> 'l world \<Rightarrow> nat \<Rightarrow> bool" where
  "decisive_at chan start w k \<longleftrightarrow>
     (\<forall>i<k. retval (recv_reply ((retry ^^ i) w)) < 0 \<and>
            \<not> timed_out chan start (after_recv ((retry ^^ i) w))) \<and>
     (0 \<le> retval (recv_reply ((retry ^^ k) w)) \<or>
      timed_out chan start (after_recv ((retry ^^ k) w)))"

text \<open>The command write of the no-hold branch: its opcode, its reply, the world after it.\<close>

definition nohold_cmd :: "iio_chan_type \<Rightarrow> byte" where
  "nohold_cmd chan = (if chan = IIO_TEMP then SI7020CMD_TEMP_NO_HOLD else SI7020CMD_RH_NO_HOLD)"

definition write_reply :: "byte \<Rightarrow> 'l world \<Rightarrow> reply" where
  "write_reply c w = respond w (length (oplog w)) (SMBUS_WRITE_BYTE c)"

definition after_write :: "byte \<Rightarrow> 'l world \<Rightarrow> 'l world" where
  "after_write c w = snd (perform (SMBUS_WRITE_BYTE c) w)"

text \<open>The opcode of the hold branch, and the calls made between two worlds.\<close>

definition hold_cmd :: "iio_chan_type \<Rightarrow> byte" where
  "hold_cmd chan = (if chan = IIO_TEMP then SI7020CMD_TEMP_HOLD else SI7020CMD_RH_HOLD)"

definition ops_since :: "'l world \<Rightarrow> 'l world \<Rightarrow> bus_op list" where
  "ops_since w w' = drop (length (oplog w)) (oplog w')"

text \<open>
  What the spec calls the transport capabilities and the platform override, read off
  the client the way \<open>si7020_probe\<close> tests them.
\<close>

definition clock_stretch :: "i2c_client \<Rightarrow> bool" where
  "clock_stretch client \<longleftrightarrow> \<not> i2c_check_quirks (adapter client) {I2C_AQ_NO_CLK_STRETCH}"

definition raw_io :: "i2c_client \<Rightarrow> bool" where
  "raw_io client \<longleftrightarrow> i2c_check_functionality (adapter client) {I2C_FUNC_I2C}"

definition smbus_io :: "i2c_client \<Rightarrow> bool" where
  "smbus_io client \<longleftrightarrow>
     i2c_check_functionality (adapter client)
       {I2C_FUNC_SMBUS_WRITE_BYTE, I2C_FUNC_SMBUS_READ_WORD_DATA}"

definition pdata_override :: "i2c_client \<Rightarrow> bool option" where
  "pdata_override client = map_option blocking_io (dev_get_platdata client)"

text \<open>
  A platform that keeps its promises: the clock ticks, \<open>usleep_range\<close> sleeps within
  the range it was given, a receive takes at most \<open>d\<close> microseconds, and the tick
  counter is wide enough for \<open>time_after\<close> to compare the times of one read.
\<close>

definition well_behaved :: "nat \<Rightarrow> 'l::len world \<Rightarrow> bool" where
  "well_behaved d w \<longleftrightarrow>
     0 < tick_us w \<and>
     (\<forall>n. SI7020_NOHOLD_SLEEP_MIN
            \<le> took_us (respond w n (USLEEP_RANGE SI7020_NOHOLD_SLEEP_MIN SI7020_NOHOLD_SLEEP_MAX)) \<and>
          took_us (respond w n (USLEEP_RANGE SI7020_NOHOLD_SLEEP_MIN SI7020_NOHOLD_SLEEP_MAX))
            \<le> SI7020_NOHOLD_SLEEP_MAX) \<and>
     (\<forall>n. took_us (respond w n (MASTER_RECV 2)) \<le> d) \<and>
     d + 2 ^ 15 \<le> (2 :: nat) ^ (LENGTH('l) - 1)"

text \<open>
  Capability negotiation as the spec words it, to compare with the code: from
  "clock-stretching supported", "raw read/write available" and the optional
  "prefer blocking I/O" override to the mode (\<open>True\<close> is blocking), or \<open>None\<close>
  when no mode is viable.
\<close>

definition negotiate :: "bool \<Rightarrow> bool \<Rightarrow> bool option \<Rightarrow> bool option" where
  "negotiate stretch rawio override =
     (case override of
        Some blocking \<Rightarrow>
          if blocking \<and> \<not> stretch then None
          else if \<not> blocking \<and> \<not> rawio then None
          else Some blocking
      | None \<Rightarrow>
          if stretch then Some True
          else if rawio then Some False
          else None)"

subsection \<open>Clients and worlds to run the driver on\<close>

definition full_adapter :: i2c_adapter where
  "full_adapter =
     \<lparr>functionality = {I2C_FUNC_I2C, I2C_FUNC_SMBUS_WRITE_BYTE, I2C_FUNC_SMBUS_READ_WORD_DATA},
      quirks = {}\<rparr>"

definition hold_client :: i2c_client where
  "hold_client = \<lparr>adapter = full_adapter, platdata = None\<rparr>"

definition nohold_client :: i2c_client where
  "nohold_client =
     \<lparr>adapter = full_adapter\<lparr>quirks := {I2C_AQ_NO_CLK_STRETCH}\<rparr>, platdata = None\<rparr>"

text \<open>A bus that gives the same reply to every call, on a 32-bit kernel with \<open>HZ = 1000\<close>.\<close>

definition fixed_reply_world :: "reply \<Rightarrow> 32 world" where
  "fixed_reply_world r =
     \<lparr>respond = (\<lambda>n op. r), tick_us = 1000, boot_jiffies = 0, now_us = 0, oplog = []\<rparr>"

definition override_client :: "bool \<Rightarrow> i2c_func set \<Rightarrow> i2c_quirk set \<Rightarrow> i2c_client" where
  "override_client b fs qs =
     \<lparr>adapter = \<lparr>functionality = fs, quirks = qs\<rparr>, platdata = Some \<lparr>blocking_io = b\<rparr>\<rparr>"

text \<open>
  A bus where every call succeeds: transactions take 100 microseconds and return 0,
  a receive delivers the bytes 0x4E and 0x20, the allocation returns a device, and
  sleeps last as long as asked. A 32-bit kernel with \<open>HZ = 1000\<close>.
\<close>

definition healthy_world :: "32 world" where
  "healthy_world =
     \<lparr>respond = (\<lambda>n op. case op of
          MASTER_RECV c \<Rightarrow> \<lparr>retval = 2, buf0 = 0x4E, buf1 = 0x20, took_us = 300\<rparr>
        | USLEEP_RANGE lo hi \<Rightarrow> \<lparr>retval = 0, buf0 = 0, buf1 = 0, took_us = lo\<rparr>
        | MSLEEP ms \<Rightarrow> \<lparr>retval = 0, buf0 = 0, buf1 = 0, took_us = 1000 * ms\<rparr>
        | DEVM_IIO_DEVICE_ALLOC \<Rightarrow> \<lparr>retval = 1, buf0 = 0, buf1 = 0, took_us = 0\<rparr>
        | _ \<Rightarrow> \<lparr>retval = 0, buf0 = 0, buf1 = 0, took_us = 100\<rparr>),
      tick_us = 1000, boot_jiffies = 0, now_us = 0, oplog = []\<rparr>"

text \<open>
  A bus whose first two receives fail with \<open>-ENXIO\<close> and whose third delivers the
  bytes 0x4E and 0x20; a sleep lasts 4000 microseconds. The calls are numbered from 0:
  the command write is call 0, the receives are calls 1, 3 and 5.
\<close>

definition third_try_world :: "32 world" where
  "third_try_world =
     \<lparr>respond = (\<lambda>n op.
          if n = 5 then \<lparr>retval = 2, buf0 = 0x4E, buf1 = 0x20, took_us = 300\<rparr>
          else case op of
            MASTER_RECV c \<Rightarrow> \<lparr>retval = - 6, buf0 = 0, buf1 = 0, took_us = 300\<rparr>
          | USLEEP_RANGE lo hi \<Rightarrow> \<lparr>retval = 0, buf0 = 0, buf1 = 0, took_us = 4000\<rparr>
          | _ \<Rightarrow> \<lparr>retval = 0, buf0 = 0, buf1 = 0, took_us = 100\<rparr>),
      tick_us = 1000, boot_jiffies = 0, now_us = 0, oplog = []\<rparr>"

text \<open>
  A bus whose receives always fail with \<open>-EREMOTEIO\<close>, on a 32-bit kernel with
  \<open>HZ = 100\<close> (a tick every 10000 microseconds). Bus calls take no time and every
  sleep lasts 6000 microseconds, the upper end of its range.
\<close>

definition hz100_failing_world :: "32 world" where
  "hz100_failing_world =
     \<lparr>respond = (\<lambda>n op. case op of
          MASTER_RECV c \<Rightarrow> \<lparr>retval = - 121, buf0 = 0, buf1 = 0, took_us = 0\<rparr>
        | USLEEP_RANGE lo hi \<Rightarrow> \<lparr>retval = 0, buf0 = 0, buf1 = 0, took_us = 6000\<rparr>
        | _ \<Rightarrow> \<lparr>retval = 0, buf0 = 0, buf1 = 0, took_us = 0\<rparr>),
      tick_us = 10000, boot_jiffies = 0, now_us = 0, oplog = []\<rparr>"

text \<open>Where that world is when the humidity read returns.\<close>

definition hz100_failing_end :: "32 world" where
  "hz100_failing_end =
     hz100_failing_world\<lparr>now_us := 42000,
       oplog := [SMBUS_WRITE_BYTE 0xF5,
                 MASTER_RECV 2, USLEEP_RANGE 2000 6000, MASTER_RECV 2, USLEEP_RANGE 2000 6000,
                 MASTER_RECV 2, USLEEP_RANGE 2000 6000, MASTER_RECV 2, USLEEP_RANGE 2000 6000,
                 MASTER_RECV 2, USLEEP_RANGE 2000 6000, MASTER_RECV 2, USLEEP_RANGE 2000 6000,
                 MASTER_RECV 2, USLEEP_RANGE 2000 6000, MASTER_RECV 2]\<rparr>"

text \<open>
  A client whose platform data asks for blocking I/O, on an adapter that can do
  everything; and the world \<open>healthy_world\<close> has reached when the probe of such a
  client has returned.
\<close>

definition blocking_client :: i2c_client where
  "blocking_client =
     \<lparr>adapter = full_adapter, platdata = Some \<lparr>blocking_io = True\<rparr>\<rparr>"

definition healthy_attached :: "32 world" where
  "healthy_attached =
     healthy_world\<lparr>now_us := 15200,
       oplog := [SMBUS_WRITE_BYTE 0xFE, MSLEEP 15, DEVM_IIO_DEVICE_ALLOC,
                 DEVM_IIO_DEVICE_REGISTER]\<rparr>"

section \<open>Properties\<close>

subsection \<open>Auxiliary facts\<close>

lemmas si7020_consts =
  SI7020CMD_RH_HOLD_def SI7020CMD_RH_NO_HOLD_def SI7020CMD_TEMP_HOLD_def
  SI7020CMD_TEMP_NO_HOLD_def SI7020CMD_RESET_def SI7020_RH_TIMEOUT_def
  SI7020_TEMP_TIMEOUT_def SI7020_NOHOLD_SLEEP_MIN_def SI7020_NOHOLD_SLEEP_MAX_def

lemma perform_fields [simp]:
  "now_us (snd (perform op w)) = now_us w + took_us (respond w (length (oplog w)) op)"
  "oplog (snd (perform op w)) = oplog w @ [op]"
  "respond (snd (perform op w)) = respond w"
  "tick_us (snd (perform op w)) = tick_us w"
  "boot_jiffies (snd (perform op w)) = boot_jiffies w"
  "fst (perform op w) = respond w (length (oplog w)) op"
  by (simp_all add: perform_def Let_def)

lemma holdmode_hold_client: "holdmode hold_client"
  by (simp add: holdmode_def hold_client_def full_adapter_def dev_get_platdata_def
      i2c_check_quirks_def)

lemma holdmode_nohold_client: "\<not> holdmode nohold_client"
  by (simp add: holdmode_def nohold_client_def full_adapter_def dev_get_platdata_def
      i2c_check_quirks_def)

lemma read_hold_step:
  "si7020_read_hold chan w =
     (let c = (if chan = IIO_TEMP then SI7020CMD_TEMP_HOLD else SI7020CMD_RH_HOLD);
          r = respond w (length (oplog w)) (SMBUS_READ_WORD_SWAPPED c)
      in (if retval r < 0 then Inl (retval r) else Inr (drop_bit 2 (retval r)),
          snd (perform (SMBUS_READ_WORD_SWAPPED c) w)))"
  by (simp add: si7020_read_hold_def i2c_smbus_read_word_swapped_def split_beta Let_def)

lemma poll_step:
  "si7020_poll chan start w =
     (if retval (recv_reply w) < 0 then
        if timed_out chan start (after_recv w)
        then Some (Inl (retval (recv_reply w)), after_recv w)
        else si7020_poll chan start (retry w)
      else Some (Inr (assemble (recv_reply w)), after_recv w))"
  by (subst si7020_poll.simps)
     (simp add: i2c_master_recv_def recv_reply_def after_recv_def retry_def timed_out_def
        timeout_us_def assemble_def split_beta)

lemma retry_fields [simp]:
  "respond (retry w) = respond w"
  "tick_us (retry w) = tick_us w"
  "boot_jiffies (retry w) = boot_jiffies w"
  "oplog (retry w) = oplog w @ [MASTER_RECV 2, USLEEP_RANGE 2000 6000]"
  "respond (after_recv w) = respond w"
  "tick_us (after_recv w) = tick_us w"
  "boot_jiffies (after_recv w) = boot_jiffies w"
  "oplog (after_recv w) = oplog w @ [MASTER_RECV 2]"
  "now_us (after_recv w) = now_us w + took_us (recv_reply w)"
  by (simp_all add: retry_def after_recv_def usleep_range_def recv_reply_def si7020_consts)

lemma now_retry:
  "now_us (retry w) = now_us w + took_us (recv_reply w) +
     took_us (respond w (Suc (length (oplog w))) (USLEEP_RANGE 2000 6000))"
  by (simp add: retry_def after_recv_def usleep_range_def recv_reply_def si7020_consts)

lemma retry_pow_fields [simp]:
  "respond ((retry ^^ k) w) = respond w"
  "tick_us ((retry ^^ k) w) = tick_us w"
  "boot_jiffies ((retry ^^ k) w) = boot_jiffies w"
  by (induction k) simp_all

lemma concat_replicate_snoc:
  "concat (replicate k xs) @ xs = xs @ concat (replicate k xs)"
  by (induction k) simp_all

lemma oplog_retry_pow:
  "oplog ((retry ^^ k) w) =
     oplog w @ concat (replicate k [MASTER_RECV 2, USLEEP_RANGE 2000 6000])"
  by (induction k) (simp_all add: concat_replicate_snoc)

lemma poll_after_failures:
  "(\<And>i. i < k \<Longrightarrow> retval (recv_reply ((retry ^^ i) w)) < 0 \<and>
        \<not> timed_out chan start (after_recv ((retry ^^ i) w))) \<Longrightarrow>
   si7020_poll chan start w = si7020_poll chan start ((retry ^^ k) w)"
proof (induction k)
  case 0
  show ?case by simp
next
  case (Suc k)
  have "si7020_poll chan start w = si7020_poll chan start ((retry ^^ k) w)"
    using Suc.prems by (intro Suc.IH) simp
  also have "\<dots> = si7020_poll chan start (retry ((retry ^^ k) w))"
    using Suc.prems [of k] by (subst poll_step) simp
  finally show ?case by simp
qed

lemma time_after_elapsed:
  fixes s :: "'l::len word"
  assumes N: "N < 2 ^ (LENGTH('l) - 1)" and e: "e \<le> N + 2 ^ (LENGTH('l) - 1)"
  shows "time_after (s + of_nat (j + e)) (s + of_nat j + of_nat N) \<longleftrightarrow> N < e"
proof -
  have eq: "(s + of_nat j + of_nat N) - (s + of_nat (j + e)) = (of_int (int N - int e) :: 'l word)"
    by simp
  from e have "int e \<le> int (N + 2 ^ (LENGTH('l) - 1))"
    by (simp only: of_nat_le_iff)
  then have "int e \<le> int N + 2 ^ (LENGTH('l) - 1)"
    by simp
  then have lo: "- (2 ^ (LENGTH('l) - 1)) \<le> int N - int e"
    by linarith
  from N have "int N < int (2 ^ (LENGTH('l) - 1))"
    by (simp only: of_nat_less_iff)
  also have "int (2 ^ (LENGTH('l) - 1)) = 2 ^ (LENGTH('l) - 1)"
    by simp
  finally have hi: "int N - int e < 2 ^ (LENGTH('l) - 1)"
    by linarith
  have "sint (of_int (int N - int e) :: 'l word) = int N - int e"
    using lo hi by (simp only: sint_sbintrunc' signed_take_bit_int_eq_self)
  then show ?thesis
    unfolding time_after_def eq by auto
qed

lemma div_le_imp_less_tick:
  fixes c :: nat
  assumes "0 < t" and "c div t \<le> J"
  shows "c < (J + 1) * t"
proof -
  have "c < (c div t + 1) * t"
    using assms(1) by (simp add: dividend_less_div_times add.commute)
  also have "\<dots> \<le> (J + 1) * t"
    using assms(2) by (intro mult_le_mono1) simp
  finally show ?thesis .
qed

lemma div_gr_imp_ge_tick:
  fixes c :: nat
  assumes "J < c div t"
  shows "(J + 1) * t \<le> c"
proof -
  have "(J + 1) * t \<le> (c div t) * t"
    using assms by (intro mult_le_mono1) simp
  also have "\<dots> \<le> c"
    by simp
  finally show ?thesis .
qed

lemma ceil_ticks_cover:
  fixes T :: nat
  assumes "0 < t"
  shows "T \<le> ((T + t - 1) div t) * t"
proof -
  have "T + t - 1 < ((T + t - 1) div t + 1) * t"
    using assms by (intro div_le_imp_less_tick) simp_all
  then show ?thesis
    using assms by (simp add: algebra_simps)
qed

lemma less_imp_div_le_add:
  fixes c :: nat
  assumes "0 < t" and "c < J * t + X"
  shows "c div t \<le> J + X"
proof -
  have "c div t \<le> (J * t + X) div t"
    using assms(2) by (intro div_le_mono) simp
  also have "\<dots> = J + X div t"
    using assms(1) by simp
  also have "\<dots> \<le> J + X"
    by simp
  finally show ?thesis .
qed

lemma decisive_at_Suc:
  assumes "retval (recv_reply w) < 0" and "\<not> timed_out chan start (after_recv w)"
    and "decisive_at chan start (retry w) k"
  shows "decisive_at chan start w (Suc k)"
proof -
  have "retval (recv_reply ((retry ^^ i) w)) < 0 \<and>
        \<not> timed_out chan start (after_recv ((retry ^^ i) w))" if "i < Suc k" for i
  proof (cases i)
    case 0
    with assms(1,2) show ?thesis by simp
  next
    case (Suc j)
    with that assms(3) show ?thesis
      by (simp add: decisive_at_def funpow_swap1)
  qed
  moreover have "0 \<le> retval (recv_reply ((retry ^^ Suc k) w)) \<or>
      timed_out chan start (after_recv ((retry ^^ Suc k) w))"
    using assms(3) by (simp add: decisive_at_def funpow_swap1)
  ultimately show ?thesis
    unfolding decisive_at_def by blast
qed

lemma timeout_jiffies_le:
  assumes "0 < tick_us w"
  shows "timeout_jiffies w chan < 2 ^ 15"
proof -
  have T: "timeout_us chan \<le> 22800"
    by (simp add: timeout_us_def si7020_consts)
  have "timeout_jiffies w chan \<le> (timeout_us chan + tick_us w - 1)"
    unfolding timeout_jiffies_def by (rule div_le_dividend)
  have "timeout_us chan + tick_us w - 1 < (timeout_us chan + 1) * tick_us w"
  proof -
    have le: "timeout_us chan * 1 \<le> timeout_us chan * tick_us w"
      using assms by (intro mult_le_mono2) simp
    have "timeout_us chan + tick_us w - 1 < timeout_us chan + tick_us w"
      using assms by simp
    also have "\<dots> \<le> timeout_us chan * tick_us w + tick_us w"
      using le by simp
    finally show ?thesis by (simp add: algebra_simps)
  qed
  then have "timeout_jiffies w chan < timeout_us chan + 1"
    unfolding timeout_jiffies_def using assms by (simp add: less_mult_imp_div_less)
  with T show ?thesis by simp
qed

lemma timed_out_iff:
  fixes w0 w1 :: "'l::len world"
  assumes tick: "0 < tick_us w0" and d: "d + 2 ^ 15 \<le> (2 :: nat) ^ (LENGTH('l) - 1)"
    and same: "tick_us w1 = tick_us w0" "boot_jiffies w1 = boot_jiffies w0"
    and le: "now_us w0 \<le> now_us w1"
    and bound: "now_us w1 <
       (now_us w0 div tick_us w0 + timeout_jiffies w0 chan + 1) * tick_us w0 + (6000 + d)"
  shows "timed_out chan (jiffies w0) w1 \<longleftrightarrow>
     now_us w0 div tick_us w0 + timeout_jiffies w0 chan < now_us w1 div tick_us w0"
proof -
  define j where "j = now_us w0 div tick_us w0"
  define N where "N = timeout_jiffies w0 chan"
  define e where "e = now_us w1 div tick_us w0 - j"
  have j_le: "j \<le> now_us w1 div tick_us w0"
    unfolding j_def using le by (rule div_le_mono)
  then have j1: "now_us w1 div tick_us w0 = j + e"
    by (simp add: e_def)
  have "N < 2 ^ 15"
    unfolding N_def using tick by (rule timeout_jiffies_le)
  with d have N: "N < 2 ^ (LENGTH('l) - 1)"
    by linarith
  have "now_us w1 div tick_us w0 \<le> (j + N + 1) + (6000 + d)"
    using tick bound unfolding j_def N_def by (rule less_imp_div_le_add)
  with j1 d have e: "e \<le> N + 2 ^ (LENGTH('l) - 1)"
    by simp
  have now: "jiffies w1 = boot_jiffies w0 + of_nat (j + e)"
    by (simp only: jiffies_def same j1)
  have dl: "jiffies w0 + usecs_to_jiffies w1 (timeout_us chan) =
      boot_jiffies w0 + of_nat j + of_nat N"
    by (simp only: jiffies_def usecs_to_jiffies_def same j_def N_def timeout_jiffies_def)
  have "timed_out chan (jiffies w0) w1 \<longleftrightarrow>
      time_after (boot_jiffies w0 + of_nat (j + e)) (boot_jiffies w0 + of_nat j + of_nat N)"
    by (simp only: timed_out_def now dl)
  also have "\<dots> \<longleftrightarrow> N < e"
    using N e by (rule time_after_elapsed)
  also have "\<dots> \<longleftrightarrow> j + N < now_us w1 div tick_us w0"
    using j1 by simp
  finally show ?thesis
    by (simp add: j_def N_def)
qed

lemma well_behaved_retry [simp]: "well_behaved d (retry w) \<longleftrightarrow> well_behaved d w"
  by (simp add: well_behaved_def)

lemma timeout_within_ticks:
  assumes "0 < tick_us w0"
  shows "now_us w0 + timeout_us chan <
     (now_us w0 div tick_us w0 + timeout_jiffies w0 chan + 1) * tick_us w0"
proof -
  have "now_us w0 < (now_us w0 div tick_us w0 + 1) * tick_us w0"
    using assms by (intro div_le_imp_less_tick) simp_all
  moreover have "timeout_us chan \<le> timeout_jiffies w0 chan * tick_us w0"
    unfolding timeout_jiffies_def using assms by (rule ceil_ticks_cover)
  ultimately show ?thesis
    by (simp add: algebra_simps)
qed

lemma decisive_exists:
  fixes w0 w :: "'l::len world"
  assumes wb: "well_behaved d w"
    and same: "tick_us w = tick_us w0" "boot_jiffies w = boot_jiffies w0"
    and lo: "now_us w0 \<le> now_us w"
    and hi: "now_us w <
       (now_us w0 div tick_us w0 + timeout_jiffies w0 chan + 1) * tick_us w0 + 6000"
  shows "\<exists>k. decisive_at chan (jiffies w0) w k \<and>
     now_us (after_recv ((retry ^^ k) w)) <
       (now_us w0 div tick_us w0 + timeout_jiffies w0 chan + 1) * tick_us w0 + (6000 + d) \<and>
     (timed_out chan (jiffies w0) (after_recv ((retry ^^ k) w)) \<longrightarrow>
        now_us w0 + timeout_us chan < now_us (after_recv ((retry ^^ k) w)))"
proof -
  define D where "D = (now_us w0 div tick_us w0 + timeout_jiffies w0 chan + 1) * tick_us w0"
  have tick0: "0 < tick_us w0"
    using wb same by (simp add: well_behaved_def)
  have "\<exists>k. decisive_at chan (jiffies w0) w k \<and>
     now_us (after_recv ((retry ^^ k) w)) < D + (6000 + d) \<and>
     (timed_out chan (jiffies w0) (after_recv ((retry ^^ k) w)) \<longrightarrow>
        now_us w0 + timeout_us chan < now_us (after_recv ((retry ^^ k) w)))"
    if "well_behaved d w" "tick_us w = tick_us w0" "boot_jiffies w = boot_jiffies w0"
       "now_us w0 \<le> now_us w" "now_us w < D + 6000" for w :: "'l world"
    using that
  proof (induction "D + 6000 - now_us w" arbitrary: w rule: less_induct)
    case less
    define w1 where "w1 = after_recv w"
    have dlen: "d + 2 ^ 15 \<le> (2 :: nat) ^ (LENGTH('l) - 1)"
      and rd: "took_us (recv_reply w) \<le> d"
      and sl: "2000 \<le> took_us (respond w (Suc (length (oplog w))) (USLEEP_RANGE 2000 6000))"
              "took_us (respond w (Suc (length (oplog w))) (USLEEP_RANGE 2000 6000)) \<le> 6000"
      using less.prems(1) by (simp_all add: well_behaved_def recv_reply_def si7020_consts)
    have now1: "now_us w1 = now_us w + took_us (recv_reply w)"
      by (simp add: w1_def)
    have same1: "tick_us w1 = tick_us w0" "boot_jiffies w1 = boot_jiffies w0"
      using less.prems(2,3) by (simp_all add: w1_def)
    have le1: "now_us w0 \<le> now_us w1"
      using less.prems(4) now1 by simp
    have hi1: "now_us w1 < D + (6000 + d)"
      using less.prems(5) rd now1 by simp
    have to: "timed_out chan (jiffies w0) w1 \<longleftrightarrow>
        now_us w0 div tick_us w0 + timeout_jiffies w0 chan < now_us w1 div tick_us w0"
      using tick0 dlen same1 le1 hi1 [unfolded D_def] by (rule timed_out_iff)
    show ?case
    proof (cases "0 \<le> retval (recv_reply w) \<or> timed_out chan (jiffies w0) w1")
      case True
      then have "decisive_at chan (jiffies w0) w 0"
        by (simp add: decisive_at_def w1_def)
      moreover have "now_us w0 + timeout_us chan < now_us w1"
        if "timed_out chan (jiffies w0) w1"
      proof -
        have "D \<le> now_us w1"
          unfolding D_def using that to by (intro div_gr_imp_ge_tick) simp
        moreover have "now_us w0 + timeout_us chan < D"
          unfolding D_def using tick0 by (rule timeout_within_ticks)
        ultimately show ?thesis by simp
      qed
      ultimately show ?thesis
        using hi1 by (intro exI [of _ 0]) (simp add: w1_def)
    next
      case False
      then have fail: "retval (recv_reply w) < 0"
        and nto: "\<not> timed_out chan (jiffies w0) (after_recv w)"
        by (simp_all add: w1_def)
      have "now_us w1 div tick_us w0 \<le> now_us w0 div tick_us w0 + timeout_jiffies w0 chan"
        using nto to by (simp add: w1_def)
      with tick0 have lt1: "now_us w1 < D"
        unfolding D_def by (rule div_le_imp_less_tick)
      have now2: "now_us (retry w) = now_us w1 +
          took_us (respond w (Suc (length (oplog w))) (USLEEP_RANGE 2000 6000))"
        by (simp add: now_retry now1)
      have "\<exists>k. decisive_at chan (jiffies w0) (retry w) k \<and>
          now_us (after_recv ((retry ^^ k) (retry w))) < D + (6000 + d) \<and>
          (timed_out chan (jiffies w0) (after_recv ((retry ^^ k) (retry w))) \<longrightarrow>
             now_us w0 + timeout_us chan < now_us (after_recv ((retry ^^ k) (retry w))))"
      proof (rule less.hyps)
        show "D + 6000 - now_us (retry w) < D + 6000 - now_us w"
          using now2 now1 sl less.prems(5) by simp
        show "well_behaved d (retry w)"
          using less.prems(1) by simp
        show "tick_us (retry w) = tick_us w0" "boot_jiffies (retry w) = boot_jiffies w0"
          using less.prems(2,3) by simp_all
        show "now_us w0 \<le> now_us (retry w)"
          using le1 now2 by simp
        show "now_us (retry w) < D + 6000"
          using lt1 now2 sl by simp
      qed
      then obtain k where k: "decisive_at chan (jiffies w0) (retry w) k"
        "now_us (after_recv ((retry ^^ k) (retry w))) < D + (6000 + d)"
        "timed_out chan (jiffies w0) (after_recv ((retry ^^ k) (retry w))) \<longrightarrow>
           now_us w0 + timeout_us chan < now_us (after_recv ((retry ^^ k) (retry w)))"
        by blast
      have "decisive_at chan (jiffies w0) w (Suc k)"
        using fail nto k(1) by (rule decisive_at_Suc)
      with k(2,3) show ?thesis
        by (intro exI [of _ "Suc k"]) (simp add: funpow_swap1)
    qed
  qed
  from this [OF wb same lo] hi show ?thesis
    by (simp add: D_def)
qed

lemma after_write_fields [simp]:
  "respond (after_write c w) = respond w"
  "tick_us (after_write c w) = tick_us w"
  "boot_jiffies (after_write c w) = boot_jiffies w"
  "oplog (after_write c w) = oplog w @ [SMBUS_WRITE_BYTE c]"
  "now_us (after_write c w) = now_us w + took_us (write_reply c w)"
  by (simp_all add: after_write_def write_reply_def)

lemma read_nohold_step:
  "si7020_read_nohold chan w =
     (if retval (write_reply (nohold_cmd chan) w) < 0
      then Some (Inl (retval (write_reply (nohold_cmd chan) w)), after_write (nohold_cmd chan) w)
      else si7020_poll chan (jiffies (after_write (nohold_cmd chan) w))
             (after_write (nohold_cmd chan) w))"
  by (simp add: si7020_read_nohold_def i2c_smbus_write_byte_def split_beta nohold_cmd_def
      write_reply_def after_write_def)

lemma poll_decisive:
  assumes "decisive_at chan start w k"
  shows "si7020_poll chan start w =
     Some (if retval (recv_reply ((retry ^^ k) w)) < 0
           then Inl (retval (recv_reply ((retry ^^ k) w)))
           else Inr (assemble (recv_reply ((retry ^^ k) w))),
           after_recv ((retry ^^ k) w))"
proof -
  have "si7020_poll chan start w = si7020_poll chan start ((retry ^^ k) w)"
    using assms by (intro poll_after_failures) (simp add: decisive_at_def)
  also have "\<dots> = Some (if retval (recv_reply ((retry ^^ k) w)) < 0
           then Inl (retval (recv_reply ((retry ^^ k) w)))
           else Inr (assemble (recv_reply ((retry ^^ k) w))),
           after_recv ((retry ^^ k) w))"
    using assms by (subst poll_step) (auto simp: decisive_at_def)
  finally show ?thesis .
qed

lemma poll_Some_decisive:
  assumes "si7020_poll chan start w = Some y"
  shows "\<exists>k. decisive_at chan start w k \<and> snd y = after_recv ((retry ^^ k) w)"
  apply (rule si7020_poll.raw_induct [OF _ assms])
  subgoal premises prems for poll chan start w y
  proof (cases "0 \<le> retval (recv_reply w) \<or> timed_out chan start (after_recv w)")
    case True
    then have "decisive_at chan start w 0"
      by (simp add: decisive_at_def)
    moreover have "snd y = after_recv w"
      using True prems(2)
      by (auto simp: i2c_master_recv_def recv_reply_def after_recv_def timed_out_def
          timeout_us_def split_beta split: if_splits)
    ultimately show ?thesis
      by (intro exI [of _ 0]) simp
  next
    case False
    then have "poll chan start (retry w) = Some y"
      using prems(2)
      by (auto simp: i2c_master_recv_def recv_reply_def after_recv_def timed_out_def
          timeout_us_def retry_def split_beta split: if_splits)
    then obtain k where "decisive_at chan start (retry w) k"
      "snd y = after_recv ((retry ^^ k) (retry w))"
      using prems(1) by blast
    with False show ?thesis
      by (intro exI [of _ "Suc k"]) (simp add: decisive_at_Suc funpow_swap1)
  qed
  done

lemma world_steps:
  "recv_reply w = respond w (length (oplog w)) (MASTER_RECV 2)"
  "after_recv w = w\<lparr>now_us := now_us w + took_us (respond w (length (oplog w)) (MASTER_RECV 2)),
                     oplog := oplog w @ [MASTER_RECV 2]\<rparr>"
  "retry w = (let w1 = after_recv w in
     w1\<lparr>now_us := now_us w1 + took_us (respond w1 (length (oplog w1)) (USLEEP_RANGE 2000 6000)),
                     oplog := oplog w1 @ [USLEEP_RANGE 2000 6000]\<rparr>)"
  "after_write c w = w\<lparr>now_us := now_us w + took_us (respond w (length (oplog w)) (SMBUS_WRITE_BYTE c)),
                     oplog := oplog w @ [SMBUS_WRITE_BYTE c]\<rparr>"
  by (simp_all add: recv_reply_def after_recv_def retry_def after_write_def perform_def Let_def
      usleep_range_def si7020_consts)

lemma measure_hold_500:
  "si7020_measure hold_client IIO_HUMIDITYRELATIVE
       (fixed_reply_world \<lparr>retval = 2000, buf0 = 0, buf1 = 0, took_us = 300\<rparr>) =
     Some (Inr 500,
       (fixed_reply_world \<lparr>retval = 2000, buf0 = 0, buf1 = 0, took_us = 300\<rparr>)
         \<lparr>now_us := 300, oplog := [SMBUS_READ_WORD_SWAPPED 0xE5]\<rparr>)"
  by (simp add: si7020_measure_def holdmode_hold_client read_hold_step Let_def perform_def
      fixed_reply_world_def si7020_consts drop_bit_eq_div)

lemma measure_nohold_500:
  "si7020_measure nohold_client IIO_HUMIDITYRELATIVE
       (fixed_reply_world \<lparr>retval = 0, buf0 = 0x07, buf1 = 0xD0, took_us = 300\<rparr>) =
     Some (Inr 500,
       (fixed_reply_world \<lparr>retval = 0, buf0 = 0x07, buf1 = 0xD0, took_us = 300\<rparr>)
         \<lparr>now_us := 600, oplog := [SMBUS_WRITE_BYTE 0xF5, MASTER_RECV 2]\<rparr>)"
  by (simp add: si7020_measure_def holdmode_nohold_client read_nohold_step poll_step
      world_steps write_reply_def nohold_cmd_def assemble_def
      fixed_reply_world_def si7020_consts drop_bit_eq_div)

lemma probe_step:
  "si7020_probe client w =
     (if \<not> smbus_io client then (- ENODEV, w)
      else if negotiate (clock_stretch client) (raw_io client) (pdata_override client) = None
      then (- ENODEV, w)
      else if retval (write_reply SI7020CMD_RESET w) < 0
      then (retval (write_reply SI7020CMD_RESET w), after_write SI7020CMD_RESET w)
      else
        (case devm_iio_device_alloc (msleep 15 (after_write SI7020CMD_RESET w)) of
           (indio_dev, w2) \<Rightarrow>
             if \<not> indio_dev then (- ENOMEM, w2) else devm_iio_device_register w2))"
  by (auto simp: si7020_probe_def negotiate_def i2c_smbus_write_byte_def split_beta
      write_reply_def after_write_def clock_stretch_def raw_io_def smbus_io_def pdata_override_def
      split: option.splits)

lemma negotiate_holdmode:
  "negotiate (clock_stretch client) (raw_io client) (pdata_override client) = Some m \<Longrightarrow>
   m = holdmode client"
  by (auto simp: negotiate_def holdmode_def clock_stretch_def pdata_override_def
      split: option.splits if_splits)

lemma probe_oplog_after_reset:
  "\<exists>ops. oplog (snd (case devm_iio_device_alloc (msleep 15 w1) of
           (indio_dev, w2) \<Rightarrow>
             if \<not> indio_dev then (- ENOMEM, w2) else devm_iio_device_register w2)) =
      oplog w1 @ ops"
  by (simp add: devm_iio_device_alloc_def devm_iio_device_register_def msleep_def split_beta)

lemma probe_oplog_reset_first:
  assumes "smbus_io client"
    and "negotiate (clock_stretch client) (raw_io client) (pdata_override client) \<noteq> None"
  shows "\<exists>ops. ops_since w (snd (si7020_probe client w)) =
           SMBUS_WRITE_BYTE SI7020CMD_RESET # ops"
proof (cases "retval (write_reply SI7020CMD_RESET w) < 0")
  case True
  with assms show ?thesis
    by (simp add: probe_step ops_since_def)
next
  case False
  obtain ops where "oplog (snd (case devm_iio_device_alloc
        (msleep 15 (after_write SI7020CMD_RESET w)) of
           (indio_dev, w2) \<Rightarrow>
             if \<not> indio_dev then (- ENOMEM, w2) else devm_iio_device_register w2)) =
      oplog (after_write SI7020CMD_RESET w) @ ops"
    using probe_oplog_after_reset by blast
  with False assms show ?thesis
    by (simp add: probe_step ops_since_def)
qed

lemma client_caps [simp]:
  "pdata_override (override_client b fs qs) = Some b"
  "clock_stretch (override_client b fs qs) \<longleftrightarrow> I2C_AQ_NO_CLK_STRETCH \<notin> qs"
  "raw_io (override_client b fs qs) \<longleftrightarrow> I2C_FUNC_I2C \<in> fs"
  "pdata_override hold_client = None" "clock_stretch hold_client" "raw_io hold_client"
  "smbus_io hold_client"
  "pdata_override nohold_client = None" "\<not> clock_stretch nohold_client" "raw_io nohold_client"
  "smbus_io nohold_client"
  by (simp_all add: pdata_override_def clock_stretch_def raw_io_def smbus_io_def override_client_def
      hold_client_def nohold_client_def full_adapter_def dev_get_platdata_def
      i2c_check_quirks_def i2c_check_functionality_def)

lemma read_raw_RAW_measure:
  assumes "si7020_read_raw client chan IIO_CHAN_INFO_RAW w = Some (r, w')"
  shows "\<exists>r'. si7020_measure client chan w = Some (r', w')"
  using assms by (auto simp: si7020_read_raw_def split: option.splits sum.splits)

lemma hold_ops:
  "ops_since w (snd (si7020_read_hold chan w)) = [SMBUS_READ_WORD_SWAPPED (hold_cmd chan)]"
  by (simp add: read_hold_step Let_def ops_since_def hold_cmd_def)

lemma nohold_ops:
  assumes "si7020_read_nohold chan w = Some (r, w')"
  shows "\<exists>ops. ops_since w w' = SMBUS_WRITE_BYTE (nohold_cmd chan) # ops \<and>
           set ops \<subseteq> {MASTER_RECV 2, USLEEP_RANGE 2000 6000}"
proof (cases "retval (write_reply (nohold_cmd chan) w) < 0")
  case True
  with assms have "w' = after_write (nohold_cmd chan) w"
    by (simp add: read_nohold_step)
  then show ?thesis
    by (simp add: ops_since_def)
next
  case False
  with assms have "si7020_poll chan (jiffies (after_write (nohold_cmd chan) w))
      (after_write (nohold_cmd chan) w) = Some (r, w')"
    by (simp add: read_nohold_step)
  then obtain k where "w' = after_recv ((retry ^^ k) (after_write (nohold_cmd chan) w))"
    using poll_Some_decisive by fastforce
  then have "ops_since w w' = SMBUS_WRITE_BYTE (nohold_cmd chan) #
      (concat (replicate k [MASTER_RECV 2, USLEEP_RANGE 2000 6000]) @ [MASTER_RECV 2])"
    by (simp add: ops_since_def oplog_retry_pow)
  moreover have "set (concat (replicate k [MASTER_RECV 2, USLEEP_RANGE 2000 6000]) @
      [MASTER_RECV 2]) \<subseteq> {MASTER_RECV 2, USLEEP_RANGE 2000 6000}"
    by (cases k) auto
  ultimately show ?thesis
    by blast
qed

lemma raw_read_ops:
  assumes "si7020_read_raw client chan IIO_CHAN_INFO_RAW w = Some (r, w')"
  shows "holdmode client \<Longrightarrow>
           ops_since w w' = [SMBUS_READ_WORD_SWAPPED (hold_cmd chan)]"
    and "\<not> holdmode client \<Longrightarrow>
           \<exists>ops. ops_since w w' = SMBUS_WRITE_BYTE (nohold_cmd chan) # ops \<and>
             set ops \<subseteq> {MASTER_RECV 2, USLEEP_RANGE 2000 6000}"
proof -
  obtain r' where m: "si7020_measure client chan w = Some (r', w')"
    using read_raw_RAW_measure [OF assms] by blast
  show "ops_since w w' = [SMBUS_READ_WORD_SWAPPED (hold_cmd chan)]" if "holdmode client"
    using m that hold_ops [of w chan] by (auto simp: si7020_measure_def)
  show "\<exists>ops. ops_since w w' = SMBUS_WRITE_BYTE (nohold_cmd chan) # ops \<and>
             set ops \<subseteq> {MASTER_RECV 2, USLEEP_RANGE 2000 6000}" if "\<not> holdmode client"
    using m that nohold_ops [of chan w r' w'] by (simp add: si7020_measure_def)
qed

lemma probe_success_negotiated:
  assumes "0 \<le> fst (si7020_probe client w)"
  shows "smbus_io client"
    and "negotiate (clock_stretch client) (raw_io client) (pdata_override client) \<noteq> None"
  using assms by (auto simp: probe_step ENODEV_def split: if_splits)

lemma probe_healthy:
  "si7020_probe nohold_client healthy_world =
     (0, healthy_world\<lparr>now_us := 15200,
           oplog := [SMBUS_WRITE_BYTE 0xFE, MSLEEP 15, DEVM_IIO_DEVICE_ALLOC,
                     DEVM_IIO_DEVICE_REGISTER]\<rparr>)"
  by (simp add: si7020_probe_def nohold_client_def full_adapter_def dev_get_platdata_def
      i2c_check_functionality_def i2c_check_quirks_def i2c_smbus_write_byte_def msleep_def
      devm_iio_device_alloc_def devm_iio_device_register_def perform_def Let_def
      healthy_world_def si7020_consts)


lemma decisive_at_0:
  "decisive_at chan start w 0 \<longleftrightarrow>
     0 \<le> retval (recv_reply w) \<or> timed_out chan start (after_recv w)"
  by (simp add: decisive_at_def)

lemma timeout_us_values: "timeout_us chan = (if chan = IIO_TEMP then 10800 else 22800)"
  by (simp add: timeout_us_def si7020_consts)

lemma nohold_cmd_values: "nohold_cmd chan = (if chan = IIO_TEMP then 0xF3 else 0xF5)"
  by (simp add: nohold_cmd_def si7020_consts)

lemma read_raw_of_measure:
  "si7020_measure client chan w = Some (Inl e, w') \<Longrightarrow>
     si7020_read_raw client chan IIO_CHAN_INFO_RAW w = Some (Inl e, w')"
  "si7020_measure client chan w = Some (Inr v, w') \<Longrightarrow>
     si7020_read_raw client chan IIO_CHAN_INFO_RAW w =
       Some (Inr (IIO_VAL_INT (if chan = IIO_HUMIDITYRELATIVE then clamp_val v 786 13893
                               else v)), w')"
  by (simp_all add: si7020_read_raw_def)

lemma third_try_after_write:
  "after_write 0xF3 third_try_world =
     third_try_world\<lparr>now_us := 100, oplog := [SMBUS_WRITE_BYTE 0xF3]\<rparr>"
  by (simp add: world_steps third_try_world_def)

lemma third_try_retried_twice:
  "(retry ^^ 2) (third_try_world\<lparr>now_us := 100, oplog := [SMBUS_WRITE_BYTE 0xF3]\<rparr>) =
     third_try_world\<lparr>now_us := 8700,
       oplog := [SMBUS_WRITE_BYTE 0xF3, MASTER_RECV 2, USLEEP_RANGE 2000 6000,
                 MASTER_RECV 2, USLEEP_RANGE 2000 6000]\<rparr>"
  by (simp add: numeral_2_eq_2 world_steps Let_def third_try_world_def)

lemma third_try_decisive:
  "decisive_at IIO_TEMP
     (jiffies (third_try_world\<lparr>now_us := 100, oplog := [SMBUS_WRITE_BYTE 0xF3]\<rparr>))
     (third_try_world\<lparr>now_us := 100, oplog := [SMBUS_WRITE_BYTE 0xF3]\<rparr>) 2"
  by (simp add: decisive_at_def numeral_2_eq_2 less_Suc_eq world_steps Let_def timed_out_def
      time_after_def jiffies_def usecs_to_jiffies_def timeout_us_values third_try_world_def)

lemma well_behaved_after_write [simp]:
  "well_behaved d (after_write c w) \<longleftrightarrow> well_behaved d w"
  by (simp add: well_behaved_def)

lemma hz100_failing_run:
  "si7020_read_raw nohold_client IIO_HUMIDITYRELATIVE IIO_CHAN_INFO_RAW hz100_failing_world =
     Some (Inl (- 121), hz100_failing_end)"
  by (simp add: si7020_read_raw_def si7020_measure_def holdmode_nohold_client read_nohold_step
      poll_step world_steps Let_def write_reply_def nohold_cmd_def timed_out_def timeout_us_def
      time_after_def jiffies_def usecs_to_jiffies_def hz100_failing_world_def
      hz100_failing_end_def si7020_consts)

lemma hz100_failing_well_behaved: "well_behaved 0 hz100_failing_world"
  by (simp add: well_behaved_def hz100_failing_world_def si7020_consts)

lemma hold_cmd_values: "hold_cmd chan = (if chan = IIO_TEMP then 0xE3 else 0xE5)"
  by (simp add: hold_cmd_def si7020_consts)

lemma hold_read_returns:
  assumes "holdmode client"
  shows "\<exists>r w'. si7020_read_raw client chan IIO_CHAN_INFO_RAW w = Some (r, w') \<and>
           ops_since w w' = [SMBUS_READ_WORD_SWAPPED (hold_cmd chan)]"
proof -
  obtain x w' where x: "si7020_read_hold chan w = (x, w')"
    by (cases "si7020_read_hold chan w")
  then have m: "si7020_measure client chan w = Some (x, w')"
    using assms by (simp add: si7020_measure_def)
  then obtain r where r: "si7020_read_raw client chan IIO_CHAN_INFO_RAW w = Some (r, w')"
    by (cases x) (auto dest: read_raw_of_measure)
  have "ops_since w w' = [SMBUS_READ_WORD_SWAPPED (hold_cmd chan)]"
    using hold_ops [of w chan] x by simp
  with r show ?thesis
    by blast
qed

lemma poll_returns:
  fixes w0 :: "'l::len world"
  assumes "well_behaved d w0"
  shows "\<exists>y. si7020_poll chan (jiffies w0) w0 = Some y"
proof -
  have "0 < tick_us w0"
    using assms by (simp add: well_behaved_def)
  then have "now_us w0 + timeout_us chan <
      (now_us w0 div tick_us w0 + timeout_jiffies w0 chan + 1) * tick_us w0"
    by (rule timeout_within_ticks)
  then have "now_us w0 <
      (now_us w0 div tick_us w0 + timeout_jiffies w0 chan + 1) * tick_us w0 + 6000"
    by simp
  then obtain k where "decisive_at chan (jiffies w0) w0 k"
    using decisive_exists [OF assms refl refl le_refl] by blast
  then show ?thesis
    using poll_decisive by blast
qed

lemma nohold_read_returns:
  fixes w :: "'l::len world"
  assumes "\<not> holdmode client"
    and "retval (write_reply (nohold_cmd chan) w) < 0 \<or> well_behaved d w"
  shows "\<exists>r w' ops. si7020_read_raw client chan IIO_CHAN_INFO_RAW w = Some (r, w') \<and>
           ops_since w w' = SMBUS_WRITE_BYTE (nohold_cmd chan) # ops \<and>
           set ops \<subseteq> {MASTER_RECV 2, USLEEP_RANGE 2000 6000}"
proof -
  have "\<exists>y. si7020_read_nohold chan w = Some y"
  proof (cases "retval (write_reply (nohold_cmd chan) w) < 0")
    case True
    then show ?thesis
      by (simp add: read_nohold_step)
  next
    case False
    with assms(2) have "well_behaved d (after_write (nohold_cmd chan) w)"
      by simp
    from poll_returns [OF this] False show ?thesis
      by (simp add: read_nohold_step)
  qed
  then obtain x w' where "si7020_measure client chan w = Some (x, w')"
    using assms(1) by (auto simp: si7020_measure_def)
  then obtain r where r: "si7020_read_raw client chan IIO_CHAN_INFO_RAW w = Some (r, w')"
    by (cases x) (auto dest: read_raw_of_measure)
  from raw_read_ops(2) [OF r assms(1)] r show ?thesis
    by blast
qed



lemma probe_blocking_healthy:
  "si7020_probe blocking_client healthy_world = (0, healthy_attached)"
  by (simp add: si7020_probe_def blocking_client_def full_adapter_def dev_get_platdata_def
      i2c_check_functionality_def i2c_check_quirks_def i2c_smbus_write_byte_def msleep_def
      devm_iio_device_alloc_def devm_iio_device_register_def perform_def Let_def
      healthy_world_def healthy_attached_def si7020_consts)

lemma probe_nohold_healthy:
  "si7020_probe nohold_client healthy_world = (0, healthy_attached)"
  by (simp add: probe_healthy healthy_attached_def)

lemma blocking_client_negotiated:
  "negotiate (clock_stretch blocking_client) (raw_io blocking_client)
     (pdata_override blocking_client) = Some True"
  by (simp add: negotiate_def clock_stretch_def raw_io_def pdata_override_def
      blocking_client_def full_adapter_def dev_get_platdata_def i2c_check_quirks_def
      i2c_check_functionality_def)

lemma read_blocking_attached:
  "si7020_read_raw blocking_client IIO_TEMP IIO_CHAN_INFO_RAW healthy_attached =
     Some (Inr (IIO_VAL_INT 0),
       healthy_world\<lparr>now_us := 15300,
         oplog := [SMBUS_WRITE_BYTE 0xFE, MSLEEP 15, DEVM_IIO_DEVICE_ALLOC,
                   DEVM_IIO_DEVICE_REGISTER, SMBUS_READ_WORD_SWAPPED 0xE3]\<rparr>)"
  by (simp add: si7020_read_raw_def si7020_measure_def holdmode_def dev_get_platdata_def
      blocking_client_def read_hold_step Let_def perform_def healthy_world_def
      healthy_attached_def si7020_consts)

lemma read_changed_attached:
  "si7020_read_raw (blocking_client\<lparr>platdata := Some \<lparr>blocking_io = False\<rparr>\<rparr>)
       IIO_TEMP IIO_CHAN_INFO_RAW healthy_attached =
     Some (Inr (IIO_VAL_INT 5000),
       healthy_world\<lparr>now_us := 15600,
         oplog := [SMBUS_WRITE_BYTE 0xFE, MSLEEP 15, DEVM_IIO_DEVICE_ALLOC,
                   DEVM_IIO_DEVICE_REGISTER, SMBUS_WRITE_BYTE 0xF3, MASTER_RECV 2]\<rparr>)"
  by (simp add: si7020_read_raw_def si7020_measure_def holdmode_def dev_get_platdata_def
      blocking_client_def read_nohold_step poll_step world_steps write_reply_def nohold_cmd_def
      assemble_def healthy_world_def healthy_attached_def si7020_consts drop_bit_eq_div)

lemma healthy_attached_well_behaved: "well_behaved 300 healthy_attached"
  by (simp add: well_behaved_def healthy_world_def healthy_attached_def si7020_consts)

subsection \<open>The statements of the specification\<close>

text \<open>
  C1. A raw read of the humidity channel, in hold mode and in no-hold mode alike
  (the client is any client): when the measurement of lines 72 to 105 leaves the
  raw value \<open>raw\<close> in \<open>*val\<close>, the caller gets \<open>raw\<close> clamped to the interval
  from 786 to 13893, and that value lies in the interval. Run on a hold-mode and on
  a no-hold bus that both deliver the raw value 500, the read returns 786.
\<close>

theorem humidity_raw_clamped:
  assumes "si7020_measure client IIO_HUMIDITYRELATIVE w = Some (Inr raw, w')"
  shows "si7020_read_raw client IIO_HUMIDITYRELATIVE IIO_CHAN_INFO_RAW w =
           Some (Inr (IIO_VAL_INT (min 13893 (max 786 raw))), w') \<and>
         786 \<le> min 13893 (max 786 raw) \<and> min 13893 (max 786 raw) \<le> 13893"
  using assms by (simp add: si7020_read_raw_def clamp_val_def min.commute max.commute)

theorem humidity_raw_clamped_witness:
  "si7020_measure hold_client IIO_HUMIDITYRELATIVE
       (fixed_reply_world \<lparr>retval = 2000, buf0 = 0, buf1 = 0, took_us = 300\<rparr>) =
     Some (Inr 500,
       (fixed_reply_world \<lparr>retval = 2000, buf0 = 0, buf1 = 0, took_us = 300\<rparr>)
         \<lparr>now_us := 300, oplog := [SMBUS_READ_WORD_SWAPPED 0xE5]\<rparr>) \<and>
   si7020_read_raw hold_client IIO_HUMIDITYRELATIVE IIO_CHAN_INFO_RAW
       (fixed_reply_world \<lparr>retval = 2000, buf0 = 0, buf1 = 0, took_us = 300\<rparr>) =
     Some (Inr (IIO_VAL_INT 786),
       (fixed_reply_world \<lparr>retval = 2000, buf0 = 0, buf1 = 0, took_us = 300\<rparr>)
         \<lparr>now_us := 300, oplog := [SMBUS_READ_WORD_SWAPPED 0xE5]\<rparr>) \<and>
   si7020_measure nohold_client IIO_HUMIDITYRELATIVE
       (fixed_reply_world \<lparr>retval = 0, buf0 = 0x07, buf1 = 0xD0, took_us = 300\<rparr>) =
     Some (Inr 500,
       (fixed_reply_world \<lparr>retval = 0, buf0 = 0x07, buf1 = 0xD0, took_us = 300\<rparr>)
         \<lparr>now_us := 600, oplog := [SMBUS_WRITE_BYTE 0xF5, MASTER_RECV 2]\<rparr>) \<and>
   si7020_read_raw nohold_client IIO_HUMIDITYRELATIVE IIO_CHAN_INFO_RAW
       (fixed_reply_world \<lparr>retval = 0, buf0 = 0x07, buf1 = 0xD0, took_us = 300\<rparr>) =
     Some (Inr (IIO_VAL_INT 786),
       (fixed_reply_world \<lparr>retval = 0, buf0 = 0x07, buf1 = 0xD0, took_us = 300\<rparr>)
         \<lparr>now_us := 600, oplog := [SMBUS_WRITE_BYTE 0xF5, MASTER_RECV 2]\<rparr>)"
  using humidity_raw_clamped [OF measure_hold_500] humidity_raw_clamped [OF measure_nohold_500]
    measure_hold_500 measure_nohold_500
  by simp

text \<open>
  C2. A raw read of the temperature channel in hold mode sends one read-word
  transaction. When the bus answers with the 16-bit word \<open>W\<close>, the caller gets
  exactly \<open>W >> 2\<close>, unclamped; when the bus answers with a negative errno, the
  caller gets that errno. The word 0x9234 gives 9357.
\<close>

theorem temp_hold_raw_unclamped:
  fixes W :: "16 word"
  assumes "holdmode client"
    and "r = respond w (length (oplog w)) (SMBUS_READ_WORD_SWAPPED 0xE3)"
    and "w1 = w\<lparr>now_us := now_us w + took_us r,
                oplog := oplog w @ [SMBUS_READ_WORD_SWAPPED 0xE3]\<rparr>"
  shows "(retval r = uint W \<longrightarrow>
            si7020_read_raw client IIO_TEMP IIO_CHAN_INFO_RAW w =
              Some (Inr (IIO_VAL_INT (uint (drop_bit 2 W))), w1)) \<and>
         (retval r < 0 \<longrightarrow>
            si7020_read_raw client IIO_TEMP IIO_CHAN_INFO_RAW w = Some (Inl (retval r), w1))"
proof -
  have "take_bit 16 (uint W) = uint W"
    using uint_lt2p [of W] by (intro take_bit_int_eq_self) simp_all
  then have "uint (drop_bit 2 W) = drop_bit 2 (uint W)"
    by (simp add: unsigned_drop_bit_eq)
  with assms show ?thesis
    by (simp add: si7020_read_raw_def si7020_measure_def read_hold_step Let_def perform_def
        si7020_consts)
qed

theorem temp_hold_raw_unclamped_witness:
  "si7020_read_raw hold_client IIO_TEMP IIO_CHAN_INFO_RAW
       (fixed_reply_world \<lparr>retval = 0x9234, buf0 = 0, buf1 = 0, took_us = 300\<rparr>) =
     Some (Inr (IIO_VAL_INT 9357),
       (fixed_reply_world \<lparr>retval = 0x9234, buf0 = 0, buf1 = 0, took_us = 300\<rparr>)
         \<lparr>now_us := 300, oplog := [SMBUS_READ_WORD_SWAPPED 0xE3]\<rparr>) \<and>
   si7020_read_raw hold_client IIO_TEMP IIO_CHAN_INFO_RAW
       (fixed_reply_world \<lparr>retval = - 121, buf0 = 0, buf1 = 0, took_us = 300\<rparr>) =
     Some (Inl (- 121),
       (fixed_reply_world \<lparr>retval = - 121, buf0 = 0, buf1 = 0, took_us = 300\<rparr>)
         \<lparr>now_us := 300, oplog := [SMBUS_READ_WORD_SWAPPED 0xE3]\<rparr>)"
  using temp_hold_raw_unclamped [OF holdmode_hold_client refl refl,
      of "fixed_reply_world \<lparr>retval = 0x9234, buf0 = 0, buf1 = 0, took_us = 300\<rparr>" "0x9234"]
    temp_hold_raw_unclamped [OF holdmode_hold_client refl refl,
      of "fixed_reply_world \<lparr>retval = - 121, buf0 = 0, buf1 = 0, took_us = 300\<rparr>" 0]
  by (simp add: fixed_reply_world_def drop_bit_eq_div)

text \<open>
  C3. Whatever the device and the world, the scale and offset queries touch nothing
  (the world comes back unchanged: no call recorded, no time passed) and return fixed
  constants: the scale is the fraction 175720 over 16384 for temperature and 125000
  over 16384 for humidity (16384 is \<open>65536 >> 2\<close>); the offset is the plain integer
  -4368 for temperature and -786 for humidity.
\<close>

theorem scale_offset_fixed_constants:
  "si7020_read_raw client IIO_TEMP IIO_CHAN_INFO_SCALE w =
     Some (Inr (IIO_VAL_FRACTIONAL 175720 16384), w) \<and>
   si7020_read_raw client IIO_HUMIDITYRELATIVE IIO_CHAN_INFO_SCALE w =
     Some (Inr (IIO_VAL_FRACTIONAL 125000 16384), w) \<and>
   si7020_read_raw client IIO_TEMP IIO_CHAN_INFO_OFFSET w =
     Some (Inr (IIO_VAL_INT (- 4368)), w) \<and>
   si7020_read_raw client IIO_HUMIDITYRELATIVE IIO_CHAN_INFO_OFFSET w =
     Some (Inr (IIO_VAL_INT (- 786)), w) \<and>
   drop_bit 2 (65536 :: int) = 16384"
  by (simp add: si7020_read_raw_def drop_bit_eq_div)

text \<open>
  C4. A raw read in no-hold mode. Its first call is the write of the no-hold opcode
  of the channel, alone; when that write fails its error is returned at once. When
  it succeeds, the tick counter is read (the start of the timeout: 10800
  microseconds for temperature, 22800 for humidity) and two-byte receives are tried.
  Let attempt \<open>k\<close> be the first that succeeds or that fails after the deadline
  (\<open>decisive_at\<close>): then the calls after the write are \<open>k\<close> times a receive followed
  by \<open>usleep_range(2000, 6000)\<close>, and one last receive. When that receive succeeds,
  the value stored in \<open>*val\<close> is its two bytes, the first one the high byte, shifted
  right by 2 (this is the value before the humidity clamp of C1, which
  \<open>si7020_read_raw\<close> applies next); when it fails, its error is returned.
\<close>

theorem nohold_read_polls:
  assumes "\<not> holdmode client"
    and "w0 = after_write (nohold_cmd chan) w"
    and "wk = (retry ^^ k) w0"
    and "v = drop_bit 2 (push_bit 8 (uint (buf0 (recv_reply wk))) OR uint (buf1 (recv_reply wk)))"
  shows "ops_since w w0 = [SMBUS_WRITE_BYTE (if chan = IIO_TEMP then 0xF3 else 0xF5)] \<and>
         timeout_us chan = (if chan = IIO_TEMP then 10800 else 22800) \<and>
         (retval (write_reply (nohold_cmd chan) w) < 0 \<longrightarrow>
            si7020_read_raw client chan IIO_CHAN_INFO_RAW w =
              Some (Inl (retval (write_reply (nohold_cmd chan) w)), w0)) \<and>
         (0 \<le> retval (write_reply (nohold_cmd chan) w) \<and>
          decisive_at chan (jiffies w0) w0 k \<longrightarrow>
            ops_since w0 (after_recv wk) =
              concat (replicate k [MASTER_RECV 2, USLEEP_RANGE 2000 6000]) @ [MASTER_RECV 2] \<and>
            (0 \<le> retval (recv_reply wk) \<longrightarrow>
               si7020_measure client chan w = Some (Inr v, after_recv wk) \<and>
               si7020_read_raw client chan IIO_CHAN_INFO_RAW w =
                 Some (Inr (IIO_VAL_INT
                   (if chan = IIO_HUMIDITYRELATIVE then clamp_val v 786 13893 else v)),
                   after_recv wk)) \<and>
            (retval (recv_reply wk) < 0 \<longrightarrow>
               si7020_read_raw client chan IIO_CHAN_INFO_RAW w =
                 Some (Inl (retval (recv_reply wk)), after_recv wk)))"
proof -
  have m: "si7020_measure client chan w = si7020_read_nohold chan w"
    using assms(1) by (simp add: si7020_measure_def)
  have ops0: "ops_since w w0 = [SMBUS_WRITE_BYTE (if chan = IIO_TEMP then 0xF3 else 0xF5)]"
    by (simp add: assms(2) ops_since_def nohold_cmd_values)
  have wfail: "si7020_read_raw client chan IIO_CHAN_INFO_RAW w =
      Some (Inl (retval (write_reply (nohold_cmd chan) w)), w0)"
    if "retval (write_reply (nohold_cmd chan) w) < 0"
    using that by (intro read_raw_of_measure) (simp add: m read_nohold_step assms(2))
  have opsk: "ops_since w0 (after_recv wk) =
      concat (replicate k [MASTER_RECV 2, USLEEP_RANGE 2000 6000]) @ [MASTER_RECV 2]"
    by (simp add: assms(3) ops_since_def oplog_retry_pow)
  have poll: "si7020_measure client chan w =
      Some (if retval (recv_reply wk) < 0 then Inl (retval (recv_reply wk)) else Inr v,
            after_recv wk)"
    if "0 \<le> retval (write_reply (nohold_cmd chan) w)" "decisive_at chan (jiffies w0) w0 k"
    using that poll_decisive [of chan "jiffies w0" w0 k]
    by (simp add: m read_nohold_step assms(2,3,4) assemble_def)
  have ok: "si7020_measure client chan w = Some (Inr v, after_recv wk) \<and>
      si7020_read_raw client chan IIO_CHAN_INFO_RAW w =
        Some (Inr (IIO_VAL_INT
          (if chan = IIO_HUMIDITYRELATIVE then clamp_val v 786 13893 else v)), after_recv wk)"
    if "0 \<le> retval (write_reply (nohold_cmd chan) w)" "decisive_at chan (jiffies w0) w0 k"
      "0 \<le> retval (recv_reply wk)"
  proof -
    have "si7020_measure client chan w = Some (Inr v, after_recv wk)"
      using poll [OF that(1,2)] that(3) by simp
    then show ?thesis
      using read_raw_of_measure(2) by blast
  qed
  have bad: "si7020_read_raw client chan IIO_CHAN_INFO_RAW w =
        Some (Inl (retval (recv_reply wk)), after_recv wk)"
    if "0 \<le> retval (write_reply (nohold_cmd chan) w)" "decisive_at chan (jiffies w0) w0 k"
      "retval (recv_reply wk) < 0"
    using poll [OF that(1,2)] that(3) by (intro read_raw_of_measure) simp
  show ?thesis
    using ops0 timeout_us_values wfail opsk ok bad by blast
qed

theorem nohold_read_polls_witness:
  "\<not> holdmode nohold_client \<and>
   0 \<le> retval (write_reply (nohold_cmd IIO_TEMP) third_try_world) \<and>
   decisive_at IIO_TEMP (jiffies (after_write 0xF3 third_try_world))
     (after_write 0xF3 third_try_world) 2 \<and>
   ops_since third_try_world (after_write 0xF3 third_try_world) = [SMBUS_WRITE_BYTE 0xF3] \<and>
   ops_since (after_write 0xF3 third_try_world)
       (third_try_world\<lparr>now_us := 9000,
          oplog := [SMBUS_WRITE_BYTE 0xF3, MASTER_RECV 2, USLEEP_RANGE 2000 6000,
                    MASTER_RECV 2, USLEEP_RANGE 2000 6000, MASTER_RECV 2]\<rparr>) =
     [MASTER_RECV 2, USLEEP_RANGE 2000 6000, MASTER_RECV 2, USLEEP_RANGE 2000 6000,
      MASTER_RECV 2] \<and>
   si7020_measure nohold_client IIO_TEMP third_try_world =
     Some (Inr 5000,
       third_try_world\<lparr>now_us := 9000,
          oplog := [SMBUS_WRITE_BYTE 0xF3, MASTER_RECV 2, USLEEP_RANGE 2000 6000,
                    MASTER_RECV 2, USLEEP_RANGE 2000 6000, MASTER_RECV 2]\<rparr>) \<and>
   si7020_read_raw nohold_client IIO_TEMP IIO_CHAN_INFO_RAW third_try_world =
     Some (Inr (IIO_VAL_INT 5000),
       third_try_world\<lparr>now_us := 9000,
          oplog := [SMBUS_WRITE_BYTE 0xF3, MASTER_RECV 2, USLEEP_RANGE 2000 6000,
                    MASTER_RECV 2, USLEEP_RANGE 2000 6000, MASTER_RECV 2]\<rparr>)"
proof -
  let ?w0 = "third_try_world\<lparr>now_us := 100, oplog := [SMBUS_WRITE_BYTE 0xF3]\<rparr>"
  let ?w2 = "third_try_world\<lparr>now_us := 8700,
       oplog := [SMBUS_WRITE_BYTE 0xF3, MASTER_RECV 2, USLEEP_RANGE 2000 6000,
                 MASTER_RECV 2, USLEEP_RANGE 2000 6000]\<rparr>"
  let ?w' = "third_try_world\<lparr>now_us := 9000,
          oplog := [SMBUS_WRITE_BYTE 0xF3, MASTER_RECV 2, USLEEP_RANGE 2000 6000,
                    MASTER_RECV 2, USLEEP_RANGE 2000 6000, MASTER_RECV 2]\<rparr>"
  have cmd: "nohold_cmd IIO_TEMP = 0xF3"
    by (simp add: nohold_cmd_values)
  have w0: "?w0 = after_write (nohold_cmd IIO_TEMP) third_try_world"
    by (simp add: cmd third_try_after_write)
  have w2: "?w2 = (retry ^^ 2) ?w0"
    by (simp only: third_try_retried_twice)
  have wr: "0 \<le> retval (write_reply (nohold_cmd IIO_TEMP) third_try_world)"
    by (simp add: cmd write_reply_def third_try_world_def)
  have last: "retval (recv_reply ?w2) = 2" "buf0 (recv_reply ?w2) = 0x4E"
    "buf1 (recv_reply ?w2) = 0x20" "after_recv ?w2 = ?w'"
    by (simp_all add: world_steps third_try_world_def)
  have v: "(5000 :: int) =
      drop_bit 2 (push_bit 8 (uint (buf0 (recv_reply ?w2))) OR uint (buf1 (recv_reply ?w2)))"
    by (simp add: last drop_bit_eq_div)
  have rep: "concat (replicate 2 [a, b]) = [a, b, a, b]" for a b :: bus_op
    by (simp add: numeral_2_eq_2)
  from nohold_read_polls [OF holdmode_nohold_client w0 w2 v] wr third_try_decisive last
    holdmode_nohold_client
  show ?thesis
    by (simp add: third_try_after_write rep)
qed

text \<open>
  C5, as the code has it. The deadline is counted in ticks of the kernel clock, so
  the upper bound the specification gives holds only up to the tick: see the counterexample
  below. What holds, on a platform that keeps its promises (\<open>well_behaved\<close>: the
  clock ticks every \<open>tick_us\<close> microseconds, sleeps stay within 2000 to 6000
  microseconds, a receive takes at most \<open>d\<close> microseconds), for a no-hold raw read
  whose command write succeeds and whose receives all fail: the read returns, with
  the error of its last receive as it is; it returns later than the timeout \<open>T\<close> of
  the channel (10800 or 22800 microseconds) after the command write, and earlier
  than \<open>T\<close> rounded up to whole ticks, plus one tick, plus one sleep of 6000
  microseconds, plus \<open>d\<close>. With a tick of one microsecond and receives that take no
  time this is the bound of the specification.
\<close>

theorem nohold_always_failing_times_out:
  fixes w :: "'l::len world"
  assumes "\<not> holdmode client"
    and "well_behaved d w"
    and "0 \<le> retval (write_reply (nohold_cmd chan) w)"
    and "\<forall>n. retval (respond w n (MASTER_RECV 2)) < 0"
    and "w0 = after_write (nohold_cmd chan) w"
    and "T = (if chan = IIO_TEMP then 10800 else 22800)"
  shows "\<exists>k. si7020_read_raw client chan IIO_CHAN_INFO_RAW w =
                Some (Inl (retval (recv_reply ((retry ^^ k) w0))),
                      after_recv ((retry ^^ k) w0)) \<and>
              now_us w0 + T < now_us (after_recv ((retry ^^ k) w0)) \<and>
              now_us (after_recv ((retry ^^ k) w0)) <
                now_us w0 + ((T + tick_us w - 1) div tick_us w + 1) * tick_us w + 6000 + d"
proof -
  have T: "T = timeout_us chan"
    by (simp add: assms(6) timeout_us_values)
  have tick: "0 < tick_us w0" and tick_eq: "tick_us w0 = tick_us w"
    using assms(2) by (simp_all add: assms(5) well_behaved_def)
  have wb: "well_behaved d w0"
    using assms(2) by (simp add: assms(5))
  have N: "timeout_jiffies w0 chan = (T + tick_us w - 1) div tick_us w"
    by (simp add: timeout_jiffies_def T tick_eq)
  have "now_us w0 + timeout_us chan <
      (now_us w0 div tick_us w0 + timeout_jiffies w0 chan + 1) * tick_us w0"
    using tick by (rule timeout_within_ticks)
  then have hi: "now_us w0 <
      (now_us w0 div tick_us w0 + timeout_jiffies w0 chan + 1) * tick_us w0 + 6000"
    by simp
  obtain k where dec: "decisive_at chan (jiffies w0) w0 k"
    and upper: "now_us (after_recv ((retry ^^ k) w0)) <
       (now_us w0 div tick_us w0 + timeout_jiffies w0 chan + 1) * tick_us w0 + (6000 + d)"
    and lower: "timed_out chan (jiffies w0) (after_recv ((retry ^^ k) w0)) \<longrightarrow>
        now_us w0 + timeout_us chan < now_us (after_recv ((retry ^^ k) w0))"
    using decisive_exists [OF wb refl refl le_refl hi] by blast
  have fail: "retval (recv_reply ((retry ^^ k) w0)) < 0"
    using assms(4) by (simp add: recv_reply_def assms(5))
  with dec have "timed_out chan (jiffies w0) (after_recv ((retry ^^ k) w0))"
    by (simp add: decisive_at_def)
  with lower have low: "now_us w0 + T < now_us (after_recv ((retry ^^ k) w0))"
    by (simp add: T)
  have "si7020_measure client chan w =
      Some (Inl (retval (recv_reply ((retry ^^ k) w0))), after_recv ((retry ^^ k) w0))"
    using assms(1,3) fail poll_decisive [OF dec]
    by (simp add: si7020_measure_def read_nohold_step assms(5))
  then have res: "si7020_read_raw client chan IIO_CHAN_INFO_RAW w =
      Some (Inl (retval (recv_reply ((retry ^^ k) w0))), after_recv ((retry ^^ k) w0))"
    by (rule read_raw_of_measure)
  have "(now_us w0 div tick_us w0) * tick_us w0 \<le> now_us w0"
    by simp
  then have "(now_us w0 div tick_us w0 + timeout_jiffies w0 chan + 1) * tick_us w0 \<le>
      now_us w0 + (timeout_jiffies w0 chan + 1) * tick_us w0"
    by (simp add: algebra_simps)
  with upper have up: "now_us (after_recv ((retry ^^ k) w0)) <
      now_us w0 + ((T + tick_us w - 1) div tick_us w + 1) * tick_us w + 6000 + d"
    by (simp add: N tick_eq)
  from res low up show ?thesis
    by blast
qed

theorem nohold_always_failing_times_out_witness:
  "\<not> holdmode nohold_client \<and> well_behaved 0 hz100_failing_world \<and>
   0 \<le> retval (write_reply (nohold_cmd IIO_HUMIDITYRELATIVE) hz100_failing_world) \<and>
   (\<forall>n. retval (respond hz100_failing_world n (MASTER_RECV 2)) < 0) \<and>
   (\<exists>k. si7020_read_raw nohold_client IIO_HUMIDITYRELATIVE IIO_CHAN_INFO_RAW
            hz100_failing_world =
          Some (Inl (retval (recv_reply ((retry ^^ k)
                  (after_write (nohold_cmd IIO_HUMIDITYRELATIVE) hz100_failing_world)))),
                after_recv ((retry ^^ k)
                  (after_write (nohold_cmd IIO_HUMIDITYRELATIVE) hz100_failing_world))) \<and>
        now_us (after_write (nohold_cmd IIO_HUMIDITYRELATIVE) hz100_failing_world) + 22800 <
          now_us (after_recv ((retry ^^ k)
                  (after_write (nohold_cmd IIO_HUMIDITYRELATIVE) hz100_failing_world))) \<and>
        now_us (after_recv ((retry ^^ k)
                  (after_write (nohold_cmd IIO_HUMIDITYRELATIVE) hz100_failing_world))) <
          now_us (after_write (nohold_cmd IIO_HUMIDITYRELATIVE) hz100_failing_world) +
            ((22800 + 10000 - 1) div 10000 + 1) * 10000 + 6000 + 0)"
proof -
  have wr: "0 \<le> retval (write_reply (nohold_cmd IIO_HUMIDITYRELATIVE) hz100_failing_world)"
    by (simp add: write_reply_def hz100_failing_world_def)
  have fails: "\<forall>n. retval (respond hz100_failing_world n (MASTER_RECV 2)) < 0"
    by (simp add: hz100_failing_world_def)
  have T: "(22800 :: nat) = (if IIO_HUMIDITYRELATIVE = IIO_TEMP then 10800 else 22800)"
    by simp
  have tick: "tick_us hz100_failing_world = 10000"
    by (simp add: hz100_failing_world_def)
  from nohold_always_failing_times_out
    [OF holdmode_nohold_client hz100_failing_well_behaved wr fails refl T]
  show ?thesis
    using holdmode_nohold_client hz100_failing_well_behaved wr fails
    unfolding tick by blast
qed

text \<open>
  C5, as stated, fails. On a kernel with \<open>HZ = 100\<close> the timeout of 22800
  microseconds is 3 ticks, and the loop gives up only once the tick counter has
  passed \<open>start + 3\<close>, that is 40000 microseconds after the start: the humidity
  read on a bus that always fails returns 42000 microseconds after the command
  write, later than 22800 + 6000.
\<close>

theorem nohold_timeout_upper_bound_counterexample:
  "si7020_read_raw nohold_client IIO_HUMIDITYRELATIVE IIO_CHAN_INFO_RAW hz100_failing_world =
     Some (Inl (- 121), hz100_failing_end) \<and>
   now_us (after_write SI7020CMD_RH_NO_HOLD hz100_failing_world) = 0 \<and>
   now_us hz100_failing_end = 42000 \<and>
   \<not> (now_us hz100_failing_end \<le>
        now_us (after_write SI7020CMD_RH_NO_HOLD hz100_failing_world) +
          SI7020_RH_TIMEOUT + SI7020_NOHOLD_SLEEP_MAX)"
  by (simp add: hz100_failing_run)
     (simp add: write_reply_def hz100_failing_world_def hz100_failing_end_def si7020_consts)

text \<open>
  C6. Capability negotiation in \<open>si7020_probe\<close>. With an override that asks for
  blocking mode on a transport that cannot stretch the clock, and with an override
  that asks for non-blocking mode on a transport without raw reads and writes, the
  probe fails with \<open>-ENODEV\<close> before any call is made. Without an override the
  mode of the reads is hold when the clock can be stretched, and no-hold when it
  cannot but raw reads and writes are there; in both cases a probe on an adapter
  with the SMBus calls goes on to reset the device. Without an override and with
  neither capability the probe fails with \<open>-ENODEV\<close> before any call is made.
\<close>

theorem probe_capability_negotiation:
  "(pdata_override client = Some True \<and> \<not> clock_stretch client \<longrightarrow>
      si7020_probe client w = (- ENODEV, w)) \<and>
   (pdata_override client = Some False \<and> \<not> raw_io client \<longrightarrow>
      si7020_probe client w = (- ENODEV, w)) \<and>
   (pdata_override client = None \<and> clock_stretch client \<longrightarrow>
      holdmode client \<and>
      (smbus_io client \<longrightarrow>
         take 1 (ops_since w (snd (si7020_probe client w))) =
           [SMBUS_WRITE_BYTE SI7020CMD_RESET])) \<and>
   (pdata_override client = None \<and> \<not> clock_stretch client \<and> raw_io client \<longrightarrow>
      \<not> holdmode client \<and>
      (smbus_io client \<longrightarrow>
         take 1 (ops_since w (snd (si7020_probe client w))) =
           [SMBUS_WRITE_BYTE SI7020CMD_RESET])) \<and>
   (pdata_override client = None \<and> \<not> clock_stretch client \<and> \<not> raw_io client \<longrightarrow>
      si7020_probe client w = (- ENODEV, w))"
proof -
  have pass: "take 1 (ops_since w (snd (si7020_probe client w))) =
      [SMBUS_WRITE_BYTE SI7020CMD_RESET]"
    if "smbus_io client" and "pdata_override client = None"
      and "clock_stretch client \<or> raw_io client"
  proof -
    from that have "negotiate (clock_stretch client) (raw_io client) (pdata_override client) \<noteq> None"
      by (auto simp: negotiate_def)
    with that(1) obtain ops where "ops_since w (snd (si7020_probe client w)) =
        SMBUS_WRITE_BYTE SI7020CMD_RESET # ops"
      using probe_oplog_reset_first [of client w] by blast
    then show ?thesis
      by simp
  qed
  have rej: "si7020_probe client w = (- ENODEV, w)"
    if "negotiate (clock_stretch client) (raw_io client) (pdata_override client) = None"
    using that by (simp add: probe_step)
  have "si7020_probe client w = (- ENODEV, w)"
    if "pdata_override client = Some True" "\<not> clock_stretch client"
    using that by (intro rej) (simp add: negotiate_def)
  moreover have "si7020_probe client w = (- ENODEV, w)"
    if "pdata_override client = Some False" "\<not> raw_io client"
    using that by (intro rej) (simp add: negotiate_def)
  moreover have "si7020_probe client w = (- ENODEV, w)"
    if "pdata_override client = None" "\<not> clock_stretch client" "\<not> raw_io client"
    using that by (intro rej) (simp add: negotiate_def)
  moreover have "holdmode client = clock_stretch client" if "pdata_override client = None"
    using that by (simp add: holdmode_def clock_stretch_def pdata_override_def split: option.splits)
  ultimately show ?thesis
    using pass by blast
qed

theorem probe_capability_negotiation_witness:
  "si7020_probe
       (override_client True {I2C_FUNC_I2C, I2C_FUNC_SMBUS_WRITE_BYTE, I2C_FUNC_SMBUS_READ_WORD_DATA}
          {I2C_AQ_NO_CLK_STRETCH})
       (fixed_reply_world \<lparr>retval = 0, buf0 = 0, buf1 = 0, took_us = 0\<rparr>) =
     (- 19, fixed_reply_world \<lparr>retval = 0, buf0 = 0, buf1 = 0, took_us = 0\<rparr>) \<and>
   si7020_probe
       (override_client False {I2C_FUNC_SMBUS_WRITE_BYTE, I2C_FUNC_SMBUS_READ_WORD_DATA} {})
       (fixed_reply_world \<lparr>retval = 0, buf0 = 0, buf1 = 0, took_us = 0\<rparr>) =
     (- 19, fixed_reply_world \<lparr>retval = 0, buf0 = 0, buf1 = 0, took_us = 0\<rparr>) \<and>
   holdmode hold_client \<and>
   take 1 (ops_since (fixed_reply_world \<lparr>retval = 0, buf0 = 0, buf1 = 0, took_us = 0\<rparr>)
      (snd (si7020_probe hold_client
         (fixed_reply_world \<lparr>retval = 0, buf0 = 0, buf1 = 0, took_us = 0\<rparr>)))) =
     [SMBUS_WRITE_BYTE 0xFE] \<and>
   \<not> holdmode nohold_client \<and>
   take 1 (ops_since (fixed_reply_world \<lparr>retval = 0, buf0 = 0, buf1 = 0, took_us = 0\<rparr>)
      (snd (si7020_probe nohold_client
         (fixed_reply_world \<lparr>retval = 0, buf0 = 0, buf1 = 0, took_us = 0\<rparr>)))) =
     [SMBUS_WRITE_BYTE 0xFE] \<and>
   si7020_probe
       (nohold_client\<lparr>adapter := \<lparr>functionality =
            {I2C_FUNC_SMBUS_WRITE_BYTE, I2C_FUNC_SMBUS_READ_WORD_DATA},
            quirks = {I2C_AQ_NO_CLK_STRETCH}\<rparr>\<rparr>)
       (fixed_reply_world \<lparr>retval = 0, buf0 = 0, buf1 = 0, took_us = 0\<rparr>) =
     (- 19, fixed_reply_world \<lparr>retval = 0, buf0 = 0, buf1 = 0, took_us = 0\<rparr>)"
proof -
  let ?w = "fixed_reply_world \<lparr>retval = 0, buf0 = 0, buf1 = 0, took_us = 0\<rparr>"
  let ?c5 = "nohold_client\<lparr>adapter := \<lparr>functionality =
            {I2C_FUNC_SMBUS_WRITE_BYTE, I2C_FUNC_SMBUS_READ_WORD_DATA},
            quirks = {I2C_AQ_NO_CLK_STRETCH}\<rparr>\<rparr>"
  have c5: "pdata_override ?c5 = None" "\<not> clock_stretch ?c5" "\<not> raw_io ?c5"
    by (simp_all add: pdata_override_def clock_stretch_def raw_io_def nohold_client_def
        dev_get_platdata_def i2c_check_quirks_def i2c_check_functionality_def)
  show ?thesis
    using probe_capability_negotiation
        [of "override_client True {I2C_FUNC_I2C, I2C_FUNC_SMBUS_WRITE_BYTE,
              I2C_FUNC_SMBUS_READ_WORD_DATA} {I2C_AQ_NO_CLK_STRETCH}" ?w]
      probe_capability_negotiation
        [of "override_client False {I2C_FUNC_SMBUS_WRITE_BYTE, I2C_FUNC_SMBUS_READ_WORD_DATA} {}" ?w]
      probe_capability_negotiation [of hold_client ?w]
      probe_capability_negotiation [of nohold_client ?w]
      probe_capability_negotiation [of ?c5 ?w] c5
    by (simp add: ENODEV_def SI7020CMD_RESET_def)
qed

text \<open>
  C7, as the code has it. The driver keeps no mode flag: \<open>si7020_probe\<close> stores only
  the client, and every raw read works the mode out again from the platform data and
  the adapter quirks as they are at that read. So for a client whose probe succeeded
  the negotiation of the spec yields a mode \<open>m\<close>, and whenever the platform data and
  the clock-stretch quirk are at a read what they were at the probe (\<open>client'\<close> is the
  client as the read finds it), the read is in mode \<open>m\<close>, from whatever world it
  starts: in blocking mode the measurement is the hold branch, it returns, and its
  one call is the read-word transaction of the hold opcode; otherwise the
  measurement is the no-hold branch, and when the command write fails or the
  platform keeps its promises it returns after the write of the no-hold opcode and
  receives and sleeps only.
\<close>

theorem read_mode_recomputed:
  fixes w1 :: "'l::len world"
  assumes "0 \<le> fst (si7020_probe client w)"
    and "dev_get_platdata client' = dev_get_platdata client"
    and "i2c_check_quirks (adapter client') {I2C_AQ_NO_CLK_STRETCH} =
           i2c_check_quirks (adapter client) {I2C_AQ_NO_CLK_STRETCH}"
  shows "\<exists>m. negotiate (clock_stretch client) (raw_io client) (pdata_override client) =
                Some m \<and>
              holdmode client' = m \<and>
              (m \<longrightarrow>
                 si7020_measure client' chan w1 = Some (si7020_read_hold chan w1) \<and>
                 (\<exists>r w2. si7020_read_raw client' chan IIO_CHAN_INFO_RAW w1 = Some (r, w2) \<and>
                    ops_since w1 w2 =
                      [SMBUS_READ_WORD_SWAPPED (if chan = IIO_TEMP then 0xE3 else 0xE5)])) \<and>
              (\<not> m \<longrightarrow>
                 si7020_measure client' chan w1 = si7020_read_nohold chan w1 \<and>
                 (retval (write_reply (if chan = IIO_TEMP then 0xF3 else 0xF5) w1) < 0 \<or>
                  well_behaved d w1 \<longrightarrow>
                    (\<exists>r w2 ops.
                       si7020_read_raw client' chan IIO_CHAN_INFO_RAW w1 = Some (r, w2) \<and>
                       ops_since w1 w2 =
                         SMBUS_WRITE_BYTE (if chan = IIO_TEMP then 0xF3 else 0xF5) # ops \<and>
                       set ops \<subseteq> {MASTER_RECV 2, USLEEP_RANGE 2000 6000})))"
proof -
  obtain m where m: "negotiate (clock_stretch client) (raw_io client) (pdata_override client) =
      Some m"
    using probe_success_negotiated(2) [OF assms(1)] by blast
  then have "m = holdmode client"
    by (rule negotiate_holdmode)
  also have "holdmode client = holdmode client'"
    unfolding holdmode_def assms(2,3) by (rule refl)
  finally have mode: "holdmode client' = m"
    by simp
  have hold: "si7020_measure client' chan w1 = Some (si7020_read_hold chan w1) \<and>
      (\<exists>r w2. si7020_read_raw client' chan IIO_CHAN_INFO_RAW w1 = Some (r, w2) \<and>
         ops_since w1 w2 = [SMBUS_READ_WORD_SWAPPED (if chan = IIO_TEMP then 0xE3 else 0xE5)])"
    if "m"
  proof -
    from that mode have h: "holdmode client'"
      by simp
    then have "si7020_measure client' chan w1 = Some (si7020_read_hold chan w1)"
      by (simp add: si7020_measure_def)
    moreover have "\<exists>r w2. si7020_read_raw client' chan IIO_CHAN_INFO_RAW w1 = Some (r, w2) \<and>
         ops_since w1 w2 = [SMBUS_READ_WORD_SWAPPED (if chan = IIO_TEMP then 0xE3 else 0xE5)]"
      using hold_read_returns [OF h, of chan w1] by (simp only: hold_cmd_values)
    ultimately show ?thesis
      by blast
  qed
  have nohold: "si7020_measure client' chan w1 = si7020_read_nohold chan w1 \<and>
      (retval (write_reply (if chan = IIO_TEMP then 0xF3 else 0xF5) w1) < 0 \<or>
       well_behaved d w1 \<longrightarrow>
         (\<exists>r w2 ops.
            si7020_read_raw client' chan IIO_CHAN_INFO_RAW w1 = Some (r, w2) \<and>
            ops_since w1 w2 = SMBUS_WRITE_BYTE (if chan = IIO_TEMP then 0xF3 else 0xF5) # ops \<and>
            set ops \<subseteq> {MASTER_RECV 2, USLEEP_RANGE 2000 6000}))"
    if "\<not> m"
  proof -
    from that mode have h: "\<not> holdmode client'"
      by simp
    then have "si7020_measure client' chan w1 = si7020_read_nohold chan w1"
      by (simp add: si7020_measure_def)
    moreover have "\<exists>r w2 ops.
            si7020_read_raw client' chan IIO_CHAN_INFO_RAW w1 = Some (r, w2) \<and>
            ops_since w1 w2 = SMBUS_WRITE_BYTE (if chan = IIO_TEMP then 0xF3 else 0xF5) # ops \<and>
            set ops \<subseteq> {MASTER_RECV 2, USLEEP_RANGE 2000 6000}"
      if "retval (write_reply (if chan = IIO_TEMP then 0xF3 else 0xF5) w1) < 0 \<or>
          well_behaved d w1"
      using nohold_read_returns [OF h, of chan w1 d] that by (simp only: nohold_cmd_values)
    ultimately show ?thesis
      by blast
  qed
  from m mode hold nohold show ?thesis
    by blast
qed

theorem read_mode_recomputed_witness:
  "0 \<le> fst (si7020_probe nohold_client healthy_world) \<and>
   snd (si7020_probe nohold_client healthy_world) = healthy_attached \<and>
   well_behaved 300 healthy_attached \<and>
   negotiate (clock_stretch nohold_client) (raw_io nohold_client)
     (pdata_override nohold_client) = Some False \<and>
   \<not> holdmode nohold_client \<and>
   si7020_measure nohold_client IIO_TEMP healthy_attached =
     si7020_read_nohold IIO_TEMP healthy_attached \<and>
   (\<exists>r w2 ops. si7020_read_raw nohold_client IIO_TEMP IIO_CHAN_INFO_RAW healthy_attached =
        Some (r, w2) \<and>
      ops_since healthy_attached w2 = SMBUS_WRITE_BYTE 0xF3 # ops \<and>
      set ops \<subseteq> {MASTER_RECV 2, USLEEP_RANGE 2000 6000})"
proof -
  have attach: "0 \<le> fst (si7020_probe nohold_client healthy_world)"
    and after: "snd (si7020_probe nohold_client healthy_world) = healthy_attached"
    by (simp_all add: probe_nohold_healthy)
  have neg: "negotiate (clock_stretch nohold_client) (raw_io nohold_client)
     (pdata_override nohold_client) = Some False"
    by (simp add: negotiate_def)
  obtain m where m: "negotiate (clock_stretch nohold_client) (raw_io nohold_client)
        (pdata_override nohold_client) = Some m"
    and nh: "\<not> m \<longrightarrow>
       si7020_measure nohold_client IIO_TEMP healthy_attached =
         si7020_read_nohold IIO_TEMP healthy_attached \<and>
       (retval (write_reply (if IIO_TEMP = IIO_TEMP then 0xF3 else 0xF5) healthy_attached) < 0 \<or>
        well_behaved 300 healthy_attached \<longrightarrow>
          (\<exists>r w2 ops.
             si7020_read_raw nohold_client IIO_TEMP IIO_CHAN_INFO_RAW healthy_attached =
               Some (r, w2) \<and>
             ops_since healthy_attached w2 =
               SMBUS_WRITE_BYTE (if IIO_TEMP = IIO_TEMP then 0xF3 else 0xF5) # ops \<and>
             set ops \<subseteq> {MASTER_RECV 2, USLEEP_RANGE 2000 6000}))"
    using read_mode_recomputed [OF attach refl refl, of IIO_TEMP healthy_attached 300]
    by blast
  from m neg have "\<not> m"
    by simp
  with nh healthy_attached_well_behaved
  have "si7020_measure nohold_client IIO_TEMP healthy_attached =
         si7020_read_nohold IIO_TEMP healthy_attached"
    and "\<exists>r w2 ops.
             si7020_read_raw nohold_client IIO_TEMP IIO_CHAN_INFO_RAW healthy_attached =
               Some (r, w2) \<and>
             ops_since healthy_attached w2 = SMBUS_WRITE_BYTE 0xF3 # ops \<and>
             set ops \<subseteq> {MASTER_RECV 2, USLEEP_RANGE 2000 6000}"
    by simp_all
  with attach after neg healthy_attached_well_behaved holdmode_nohold_client show ?thesis
    by blast
qed

text \<open>
  C7, as stated, fails. A client is attached with platform data that asks for
  blocking I/O: the probe succeeds and the negotiation yields the blocking mode. A
  raw read then uses the hold transaction. When the platform data of the same
  client is changed to non-blocking afterwards, the next raw read, from the same
  world, writes the no-hold opcode and polls: the mode was not fixed at attach.
\<close>

theorem mode_not_fixed_at_attach_counterexample:
  "fst (si7020_probe blocking_client healthy_world) = 0 \<and>
   snd (si7020_probe blocking_client healthy_world) = healthy_attached \<and>
   negotiate (clock_stretch blocking_client) (raw_io blocking_client)
     (pdata_override blocking_client) = Some True \<and>
   adapter (blocking_client\<lparr>platdata := Some \<lparr>blocking_io = False\<rparr>\<rparr>) =
     adapter blocking_client \<and>
   si7020_read_raw blocking_client IIO_TEMP IIO_CHAN_INFO_RAW healthy_attached =
     Some (Inr (IIO_VAL_INT 0),
       healthy_world\<lparr>now_us := 15300,
         oplog := [SMBUS_WRITE_BYTE 0xFE, MSLEEP 15, DEVM_IIO_DEVICE_ALLOC,
                   DEVM_IIO_DEVICE_REGISTER, SMBUS_READ_WORD_SWAPPED 0xE3]\<rparr>) \<and>
   si7020_read_raw (blocking_client\<lparr>platdata := Some \<lparr>blocking_io = False\<rparr>\<rparr>)
       IIO_TEMP IIO_CHAN_INFO_RAW healthy_attached =
     Some (Inr (IIO_VAL_INT 5000),
       healthy_world\<lparr>now_us := 15600,
         oplog := [SMBUS_WRITE_BYTE 0xFE, MSLEEP 15, DEVM_IIO_DEVICE_ALLOC,
                   DEVM_IIO_DEVICE_REGISTER, SMBUS_WRITE_BYTE 0xF3, MASTER_RECV 2]\<rparr>)"
  by (simp add: probe_blocking_healthy blocking_client_negotiated read_blocking_attached
      read_changed_attached)

text \<open>
  C8. A request whose query kind is neither raw, scale nor offset returns
  \<open>-EINVAL\<close> (22 is the errno of an invalid argument) and leaves the world as it
  was: no call is added to the record and no time passes.
\<close>

theorem read_raw_unknown_mask_einval:
  "msk \<noteq> IIO_CHAN_INFO_RAW \<Longrightarrow> msk \<noteq> IIO_CHAN_INFO_SCALE \<Longrightarrow>
   msk \<noteq> IIO_CHAN_INFO_OFFSET \<Longrightarrow>
   si7020_read_raw client chan msk w = Some (Inl (- EINVAL), w) \<and> EINVAL = 22"
  by (cases msk) (simp_all add: si7020_read_raw_def EINVAL_def)

theorem read_raw_unknown_mask_einval_witness:
  "IIO_CHAN_INFO_PROCESSED \<noteq> IIO_CHAN_INFO_RAW \<and>
   IIO_CHAN_INFO_PROCESSED \<noteq> IIO_CHAN_INFO_SCALE \<and>
   IIO_CHAN_INFO_PROCESSED \<noteq> IIO_CHAN_INFO_OFFSET \<and>
   si7020_read_raw hold_client IIO_TEMP IIO_CHAN_INFO_PROCESSED
       (fixed_reply_world \<lparr>retval = 0, buf0 = 0, buf1 = 0, took_us = 0\<rparr>) =
     Some (Inl (- 22), fixed_reply_world \<lparr>retval = 0, buf0 = 0, buf1 = 0, took_us = 0\<rparr>)"
  using read_raw_unknown_mask_einval
    [of IIO_CHAN_INFO_PROCESSED hold_client IIO_TEMP
        "fixed_reply_world \<lparr>retval = 0, buf0 = 0, buf1 = 0, took_us = 0\<rparr>"]
  by simp



text \<open>
  C10. The clamp bounds fit the calibration constants: for a raw humidity value
  \<open>r\<close> between 786 and 13893, with the scale \<open>num / den\<close> and the offset \<open>off\<close>
  that the driver reports for humidity, the processed value
  \<open>(r + off) * num / den\<close> is \<open>(r - 786) * 125000 / 16384\<close> and lies between 0 and
  100000 (0 to 100 percent in thousandths), in exact rational arithmetic.
\<close>

theorem humidity_processed_in_range:
  assumes "786 \<le> r" and "r \<le> 13893"
    and "si7020_read_raw client IIO_HUMIDITYRELATIVE IIO_CHAN_INFO_SCALE w =
           Some (Inr (IIO_VAL_FRACTIONAL num den), w1)"
    and "si7020_read_raw client IIO_HUMIDITYRELATIVE IIO_CHAN_INFO_OFFSET w =
           Some (Inr (IIO_VAL_INT off), w2)"
  shows "(of_int (r + off) * of_int num / of_int den :: rat) =
           of_int (r - 786) * 125000 / 16384 \<and>
         0 \<le> (of_int (r + off) * of_int num / of_int den :: rat) \<and>
         (of_int (r + off) * of_int num / of_int den :: rat) \<le> 100000"
proof -
  have num: "num = 125000" and den: "den = 16384" and off: "off = - 786"
    using assms(3,4) by (simp_all add: si7020_read_raw_def drop_bit_eq_div)
  define x :: rat where "x = of_int (r - 786)"
  have "r - 786 \<le> 13107" and "0 \<le> r - 786"
    using assms(1,2) by simp_all
  then have "x \<le> of_int 13107" and "of_int 0 \<le> x"
    unfolding x_def by (simp_all only: of_int_le_iff)
  then have x: "x \<le> 13107" "0 \<le> x"
    by simp_all
  have eq: "(of_int (r + off) * of_int num / of_int den :: rat) = x * 125000 / 16384"
    unfolding num den off x_def by simp
  have "0 \<le> x * 125000 / 16384"
    using x(2) by simp
  moreover have "x * 125000 / 16384 \<le> 100000"
    using x(1) by simp
  ultimately show ?thesis
    unfolding eq by (simp add: x_def)
qed

theorem humidity_processed_in_range_witness:
  "(786 :: int) \<le> 13893 \<and> (13893 :: int) \<le> 13893 \<and>
   si7020_read_raw hold_client IIO_HUMIDITYRELATIVE IIO_CHAN_INFO_SCALE
       (fixed_reply_world \<lparr>retval = 0, buf0 = 0, buf1 = 0, took_us = 0\<rparr>) =
     Some (Inr (IIO_VAL_FRACTIONAL 125000 16384),
           fixed_reply_world \<lparr>retval = 0, buf0 = 0, buf1 = 0, took_us = 0\<rparr>) \<and>
   si7020_read_raw hold_client IIO_HUMIDITYRELATIVE IIO_CHAN_INFO_OFFSET
       (fixed_reply_world \<lparr>retval = 0, buf0 = 0, buf1 = 0, took_us = 0\<rparr>) =
     Some (Inr (IIO_VAL_INT (- 786)),
           fixed_reply_world \<lparr>retval = 0, buf0 = 0, buf1 = 0, took_us = 0\<rparr>) \<and>
   (of_int (13893 + - 786) * of_int 125000 / of_int 16384 :: rat) =
     of_int (13893 - 786) * 125000 / 16384 \<and>
   0 \<le> (of_int (13893 + - 786) * of_int 125000 / of_int 16384 :: rat) \<and>
   (of_int (13893 + - 786) * of_int 125000 / of_int 16384 :: rat) \<le> 100000"
proof -
  let ?w = "fixed_reply_world \<lparr>retval = 0, buf0 = 0, buf1 = 0, took_us = 0\<rparr>"
  have scale: "si7020_read_raw hold_client IIO_HUMIDITYRELATIVE IIO_CHAN_INFO_SCALE ?w =
      Some (Inr (IIO_VAL_FRACTIONAL 125000 16384), ?w)"
    by (simp add: si7020_read_raw_def drop_bit_eq_div)
  have offset: "si7020_read_raw hold_client IIO_HUMIDITYRELATIVE IIO_CHAN_INFO_OFFSET ?w =
      Some (Inr (IIO_VAL_INT (- 786)), ?w)"
    by (simp add: si7020_read_raw_def)
  have bounds: "(786 :: int) \<le> 13893" "(13893 :: int) \<le> 13893"
    by simp_all
  from humidity_processed_in_range [OF bounds scale offset] bounds scale offset
  show ?thesis by blast
qed

end
